theory Spec2Isabelle
  imports Main
begin

section \<open>JavaScript values\<close>

text \<open>
  The module is TypeScript over dynamically shaped data (parsed comment-JSON, override
  records, plain-object snapshots). Such data is a \<open>jsval\<close>; an object is the list of
  its own properties in insertion order. Numbers are integers here (no configuration
  value of this module is fractional).
\<close>

datatype jsval =
    JUndefined
  | JNull
  | JBool bool
  | JNum int
  | JStr string
  | JObj "(string \<times> jsval) list"

datatype error =
    TypeError
  | SyntaxError
  | InvalidConfigFile string
  | FileSystemError string
  | LegacyLoadError string
  | InvalidVinylBase

text \<open>Truthiness, as \<^verbatim>\<open>if (v)\<close> and \<^verbatim>\<open>a || b\<close> test it.\<close>

fun js_truthy :: "jsval \<Rightarrow> bool" where
  "js_truthy JUndefined = False"
| "js_truthy JNull = False"
| "js_truthy (JBool b) = b"
| "js_truthy (JNum n) = (n \<noteq> 0)"
| "js_truthy (JStr s) = (s \<noteq> [])"
| "js_truthy (JObj kvs) = True"

definition js_or :: "jsval \<Rightarrow> jsval \<Rightarrow> jsval" where
  "js_or a b = (if js_truthy a then a else b)"

text \<open>
  \<^verbatim>\<open>v.k\<close> for the property names this module reads (\<^verbatim>\<open>env\<close>, \<^verbatim>\<open>compiler\<close>,
  \<^verbatim>\<open>tester\<close>, \<^verbatim>\<open>workspace\<close>, \<^verbatim>\<open>components\<close>): a missing property and any
  property of a boolean, number or string read as \<^verbatim>\<open>undefined\<close>; reading from
  \<^verbatim>\<open>undefined\<close> or \<^verbatim>\<open>null\<close> throws a TypeError.
\<close>

fun js_prop :: "jsval \<Rightarrow> string \<Rightarrow> jsval" where
  "js_prop (JObj kvs) k = (case map_of kvs k of None \<Rightarrow> JUndefined | Some v \<Rightarrow> v)"
| "js_prop v k = JUndefined"

definition js_get :: "jsval \<Rightarrow> string \<Rightarrow> error + jsval" where
  "js_get v k = (if v = JUndefined \<or> v = JNull then Inl TypeError else Inr (js_prop v k))"

text \<open>
  \<^verbatim>\<open>o[k] = v\<close> on an object's own properties: an existing key keeps its position, a
  new key goes last.
\<close>

fun obj_put :: "(string \<times> jsval) list \<Rightarrow> string \<Rightarrow> jsval \<Rightarrow> (string \<times> jsval) list" where
  "obj_put [] k v = [(k, v)]"
| "obj_put ((k', v') # kvs) k v = (if k' = k then (k, v) # kvs else (k', v') # obj_put kvs k v)"

text \<open>
  \<^verbatim>\<open>t.k = v\<close>. The module is an ES module, hence strict code: assigning a property
  of a primitive, of \<^verbatim>\<open>undefined\<close> or of \<^verbatim>\<open>null\<close> throws a TypeError.
\<close>

fun js_set :: "jsval \<Rightarrow> string \<Rightarrow> jsval \<Rightarrow> error + jsval" where
  "js_set (JObj kvs) k v = Inr (JObj (obj_put kvs k v))"
| "js_set t k v = Inl TypeError"

definition bind_err :: "error + 'a \<Rightarrow> ('a \<Rightarrow> error + 'b) \<Rightarrow> error + 'b" where
  "bind_err r f = (case r of Inl e \<Rightarrow> Inl e | Inr a \<Rightarrow> f a)"

section \<open>Collaborators\<close>

text \<open>A virtual file, as \<^verbatim>\<open>new AbstractVinyl({ base, path, contents })\<close> builds it.\<close>

record vinyl =
  vinyl_base :: string
  vinyl_path :: string
  vinyl_contents :: string

text \<open>
  The legacy configuration object (\<^verbatim>\<open>LegacyWorkspaceConfig\<close>), seen through what this
  module uses of it: the properties \<^verbatim>\<open>path\<close>, \<^verbatim>\<open>lang\<close>, \<^verbatim>\<open>compiler\<close>,
  \<^verbatim>\<open>tester\<close>, \<^verbatim>\<open>overrides\<close>, and the results of \<^verbatim>\<open>toPlainObject()\<close> and
  \<^verbatim>\<open>toVinyl({ workspaceDir })\<close>. An override table (\<^verbatim>\<open>ConsumerOverrides\<close>) is seen
  through its one method called here, \<^verbatim>\<open>getOverrideComponentData(componentId)\<close>; a
  component id is an opaque token.
\<close>

type_synonym BitId = string

type_synonym ConsumerOverrides = "BitId \<Rightarrow> jsval"

record LegacyWorkspaceConfig =
  legacy_path :: string
  legacy_lang :: string
  legacy_compiler :: jsval
  legacy_tester :: jsval
  legacy_overrides :: "ConsumerOverrides option"
  legacy_toPlainObject :: jsval
  legacy_toVinyl :: "string \<Rightarrow> vinyl option"

text \<open>
  \<^verbatim>\<open>WorkspaceSettings\<close> is the flattened key/value settings object; its class is not
  part of this module, so its two constructors are parameters below.
\<close>

type_synonym WorkspaceSettings = "(string \<times> jsval) list"

text \<open>
  Everything the module imports and does not define: the constants, \<^verbatim>\<open>path.join\<close>,
  comment-json's \<^verbatim>\<open>parse\<close> (\<open>None\<close> when it throws) and \<^verbatim>\<open>stringify\<close>, the
  contents of the template file \<^verbatim>\<open>workspace-template.jsonc\<close>, the two constructors of
  \<^verbatim>\<open>WorkspaceSettings\<close>, \<^verbatim>\<open>ConsumerOverrides.load\<close>, and
  \<^verbatim>\<open>LegacyWorkspaceConfig.loadIfExist\<close>, which reads the file system and returns a
  legacy configuration, nothing, or fails with an exception of its own (its message).
\<close>

record externals =
  BIT_JSONC :: string
  DEFAULT_LANGUAGE :: string
  COMPILER_ENV_TYPE :: string
  path_join :: "string \<Rightarrow> string \<Rightarrow> string"
  parse :: "string \<Rightarrow> jsval option"
  stringify :: "jsval \<Rightarrow> string"
  template :: string
  WorkspaceSettings_fromObject :: "jsval \<Rightarrow> WorkspaceSettings"
  WorkspaceSettings_fromLegacyConfig :: "LegacyWorkspaceConfig option \<Rightarrow> WorkspaceSettings"
  ConsumerOverrides_load :: "jsval \<Rightarrow> ConsumerOverrides"
  LegacyWorkspaceConfig_loadIfExist ::
    "(string \<rightharpoonup> string) \<Rightarrow> string \<Rightarrow> string + LegacyWorkspaceConfig option"

text \<open>
  The file system and the effects of this module on it: the files (path to contents),
  the virtual files this module handed to \<^verbatim>\<open>persistAllToFS\<close>, and the calls it
  delegated to the legacy configuration's \<^verbatim>\<open>write\<close> (their \<^verbatim>\<open>workspaceDir\<close>).
\<close>

record world =
  files :: "string \<rightharpoonup> string"
  persisted :: "vinyl list"
  legacy_writes :: "string list"

section \<open>WorkspaceConfig\<close>

record WorkspaceConfig =
  priv_path :: "string option"
  data :: jsval
  legacyConfig :: "LegacyWorkspaceConfig option"
  workspaceSettings :: WorkspaceSettings

text \<open>
  The constructor: \<^verbatim>\<open>_path\<close> starts unset; the settings come from
  \<^verbatim>\<open>data.workspace\<close> when \<^verbatim>\<open>data\<close> is truthy, from the legacy configuration
  otherwise. An absent argument is \<open>JUndefined\<close>, respectively \<open>None\<close>.
\<close>

definition new_WorkspaceConfig ::
  "externals \<Rightarrow> jsval \<Rightarrow> LegacyWorkspaceConfig option \<Rightarrow> WorkspaceConfig" where
  "new_WorkspaceConfig X d l =
     \<lparr> priv_path = None, data = d, legacyConfig = l,
       workspaceSettings =
         (if js_truthy d then WorkspaceSettings_fromObject X (js_prop d ''workspace'')
          else WorkspaceSettings_fromLegacyConfig X l) \<rparr>"

text \<open>\<^verbatim>\<open>get path()\<close>: \<^verbatim>\<open>this._path || this.legacyConfig?.path || ''\<close>.\<close>

definition path :: "WorkspaceConfig \<Rightarrow> string" where
  "path c =
     (case priv_path c of
        Some p \<Rightarrow>
          if p \<noteq> [] then p
          else (case legacyConfig c of
                  None \<Rightarrow> []
                | Some l \<Rightarrow> if legacy_path l \<noteq> [] then legacy_path l else [])
      | None \<Rightarrow>
          (case legacyConfig c of
             None \<Rightarrow> []
           | Some l \<Rightarrow> if legacy_path l \<noteq> [] then legacy_path l else []))"

text \<open>\<^verbatim>\<open>set path(configPath)\<close>.\<close>

definition set_path :: "WorkspaceConfig \<Rightarrow> string \<Rightarrow> WorkspaceConfig" where
  "set_path c configPath = c\<lparr>priv_path := Some configPath\<rparr>"

text \<open>\<^verbatim>\<open>get lang()\<close>: \<^verbatim>\<open>this.legacyConfig?.lang || DEFAULT_LANGUAGE\<close>.\<close>

definition lang :: "externals \<Rightarrow> WorkspaceConfig \<Rightarrow> string" where
  "lang X c =
     (case legacyConfig c of
        None \<Rightarrow> DEFAULT_LANGUAGE X
      | Some l \<Rightarrow> if legacy_lang l \<noteq> [] then legacy_lang l else DEFAULT_LANGUAGE X)"

text \<open>
  \<^verbatim>\<open>get _compiler()\<close>, \<^verbatim>\<open>get _tester()\<close> and \<^verbatim>\<open>_getEnvsByType(type)\<close>.
\<close>

definition priv_compiler :: "WorkspaceConfig \<Rightarrow> jsval" where
  "priv_compiler c = (case legacyConfig c of None \<Rightarrow> JUndefined | Some l \<Rightarrow> legacy_compiler l)"

definition priv_tester :: "WorkspaceConfig \<Rightarrow> jsval" where
  "priv_tester c = (case legacyConfig c of None \<Rightarrow> JUndefined | Some l \<Rightarrow> legacy_tester l)"

definition getEnvsByType :: "externals \<Rightarrow> WorkspaceConfig \<Rightarrow> string \<Rightarrow> jsval" where
  "getEnvsByType X c type =
     (if type = COMPILER_ENV_TYPE X
      then (case legacyConfig c of None \<Rightarrow> JUndefined | Some l \<Rightarrow> legacy_compiler l)
      else (case legacyConfig c of None \<Rightarrow> JUndefined | Some l \<Rightarrow> legacy_tester l))"

text \<open>\<^verbatim>\<open>get componentsConfig()\<close>; \<open>None\<close> is \<^verbatim>\<open>undefined\<close>.\<close>

definition componentsConfig :: "externals \<Rightarrow> WorkspaceConfig \<Rightarrow> ConsumerOverrides option" where
  "componentsConfig X c =
     (if js_truthy (data c) then Some (ConsumerOverrides_load X (js_prop (data c) ''components''))
      else (case legacyConfig c of None \<Rightarrow> None | Some l \<Rightarrow> legacy_overrides l))"

text \<open>\<^verbatim>\<open>_legacyPlainObject()\<close>.\<close>

definition legacyPlainObject :: "WorkspaceConfig \<Rightarrow> jsval" where
  "legacyPlainObject c =
     (case legacyConfig c of None \<Rightarrow> JUndefined | Some l \<Rightarrow> legacy_toPlainObject l)"

text \<open>
  One of the two assignments
  \<^verbatim>\<open>config.env.f = config.env.f || plainLegacy.env.f\<close>, on the value of
  \<^verbatim>\<open>config.env\<close>: the right operand of \<^verbatim>\<open>||\<close> is evaluated only when the left one
  is falsy.
\<close>

definition env_fallback :: "jsval \<Rightarrow> jsval \<Rightarrow> string \<Rightarrow> error + jsval" where
  "env_fallback env plainLegacy f =
     (if js_truthy (js_prop env f) then js_set env f (js_prop env f)
      else bind_err (js_get plainLegacy ''env'') (\<lambda>penv.
           bind_err (js_get penv f) (\<lambda>v. js_set env f v)))"

text \<open>
  The first two statements of \<^verbatim>\<open>getComponentConfig\<close>:
  \<^verbatim>\<open>componentsConfig?.getOverrideComponentData(componentId) || {}\<close>, the record the
  override table supplies for a component id.
\<close>

definition overrideRecord :: "externals \<Rightarrow> WorkspaceConfig \<Rightarrow> BitId \<Rightarrow> jsval" where
  "overrideRecord X c componentId =
     js_or (case componentsConfig X c of None \<Rightarrow> JUndefined | Some t \<Rightarrow> t componentId)
           (JObj [])"

text \<open>
  \<^verbatim>\<open>getComponentConfig(componentId)\<close>. The source mutates the object
  \<^verbatim>\<open>config.env\<close> in place; here each assignment to it is written back into
  \<^verbatim>\<open>config\<close>.
\<close>

definition getComponentConfig :: "externals \<Rightarrow> WorkspaceConfig \<Rightarrow> BitId \<Rightarrow> error + jsval" where
  "getComponentConfig X c componentId =
     (let config = overrideRecord X c componentId;
          plainLegacy = legacyPlainObject c
      in if js_truthy plainLegacy then
           (let env0 = js_or (js_prop config ''env'') (JObj []) in
            bind_err (js_set config ''env'' env0) (\<lambda>config1.
            bind_err (env_fallback env0 plainLegacy ''compiler'') (\<lambda>env1.
            bind_err (js_set config1 ''env'' env1) (\<lambda>config2.
            bind_err (env_fallback env1 plainLegacy ''tester'') (\<lambda>env2.
            js_set config2 ''env'' env2)))))
         else Inr config)"

text \<open>\<^verbatim>\<open>static fromLegacyConfig(legacyConfig)\<close>, \<^verbatim>\<open>static fromObject(data)\<close>.\<close>

definition fromLegacyConfig :: "externals \<Rightarrow> LegacyWorkspaceConfig option \<Rightarrow> WorkspaceConfig" where
  "fromLegacyConfig X l = new_WorkspaceConfig X JUndefined l"

definition fromObject :: "externals \<Rightarrow> jsval \<Rightarrow> WorkspaceConfig" where
  "fromObject X d = new_WorkspaceConfig X d None"

text \<open>\<^verbatim>\<open>static composeBitJsoncPath(dirPath)\<close>, \<^verbatim>\<open>static pathHasBitJsonc(dirPath)\<close>.\<close>

definition composeBitJsoncPath :: "externals \<Rightarrow> string \<Rightarrow> string" where
  "composeBitJsoncPath X dirPath = path_join X dirPath (BIT_JSONC X)"

definition pathHasBitJsonc :: "externals \<Rightarrow> world \<Rightarrow> string \<Rightarrow> bool" where
  "pathHasBitJsonc X w dirPath = (files w (composeBitJsoncPath X dirPath) \<noteq> None)"

text \<open>
  comment-json's \<^verbatim>\<open>assign(target, source)\<close>, an external library: it throws a
  TypeError unless \<^verbatim>\<open>target\<close> is an object, returns \<^verbatim>\<open>target\<close> as it is when
  \<^verbatim>\<open>source\<close> is not an object, and otherwise copies every own property of
  \<^verbatim>\<open>source\<close> onto \<^verbatim>\<open>target\<close>, in the order of \<^verbatim>\<open>source\<close>. (The comment
  annotations it also copies are not part of a \<open>jsval\<close>.)
\<close>

fun assign_props :: "(string \<times> jsval) list \<Rightarrow> (string \<times> jsval) list \<Rightarrow> (string \<times> jsval) list" where
  "assign_props t [] = t"
| "assign_props t ((k, v) # ps) = assign_props (obj_put t k v) ps"

fun assign :: "jsval \<Rightarrow> jsval \<Rightarrow> error + jsval" where
  "assign (JObj t) (JObj ps) = Inr (JObj (assign_props t ps))"
| "assign (JObj t) source = Inr (JObj t)"
| "assign target source = Inl TypeError"

text \<open>
  \<^verbatim>\<open>static create(props, dirPath?)\<close>; an absent \<^verbatim>\<open>dirPath\<close> is \<open>None\<close>. A
  template that does not parse makes \<^verbatim>\<open>parse\<close> throw its SyntaxError.
\<close>

definition create :: "externals \<Rightarrow> jsval \<Rightarrow> string option \<Rightarrow> error + WorkspaceConfig" where
  "create X props dirPath =
     (case parse X (template X) of
        None \<Rightarrow> Inl SyntaxError
      | Some template_obj \<Rightarrow>
          bind_err (assign template_obj props) (\<lambda>merged.
            let instance = new_WorkspaceConfig X merged None in
            Inr (case dirPath of
                   None \<Rightarrow> instance
                 | Some d \<Rightarrow> if d \<noteq> [] then set_path instance (composeBitJsoncPath X d)
                             else instance)))"

text \<open>
  \<^verbatim>\<open>static _loadFromBitJsonc(bitJsoncPath)\<close>: \<^verbatim>\<open>fs.readFile\<close> is outside the
  \<^verbatim>\<open>try\<close>, so a file that cannot be read fails with the file system's own error;
  whatever is thrown inside the \<^verbatim>\<open>try\<close> becomes \<^verbatim>\<open>InvalidConfigFile\<close>.
\<close>

definition loadFromBitJsonc :: "externals \<Rightarrow> world \<Rightarrow> string \<Rightarrow> error + WorkspaceConfig" where
  "loadFromBitJsonc X w bitJsoncPath =
     (case files w bitJsoncPath of
        None \<Rightarrow> Inl (FileSystemError bitJsoncPath)
      | Some contentBuffer \<Rightarrow>
          (case parse X contentBuffer of
             None \<Rightarrow> Inl (InvalidConfigFile bitJsoncPath)
           | Some parsed \<Rightarrow> Inr (fromObject X parsed)))"

text \<open>\<^verbatim>\<open>static loadIfExist(dirPath)\<close>; \<open>Inr None\<close> is \<^verbatim>\<open>undefined\<close>.\<close>

definition loadIfExist :: "externals \<Rightarrow> world \<Rightarrow> string \<Rightarrow> error + WorkspaceConfig option" where
  "loadIfExist X w dirPath =
     (let jsoncExist = pathHasBitJsonc X w dirPath in
      if jsoncExist then
        (let jsoncPath = composeBitJsoncPath X dirPath in
         bind_err (loadFromBitJsonc X w jsoncPath) (\<lambda>instance.
           Inr (Some (set_path instance jsoncPath))))
      else
        (case LegacyWorkspaceConfig_loadIfExist X (files w) dirPath of
           Inl msg \<Rightarrow> Inl (LegacyLoadError msg)
         | Inr None \<Rightarrow> Inr None
         | Inr (Some legacy) \<Rightarrow> Inr (Some (fromLegacyConfig X (Some legacy)))))"

text \<open>
  \<^verbatim>\<open>static ensure(dirPath, workspaceConfigProps = {})\<close>: the default applies to an
  argument that is \<^verbatim>\<open>undefined\<close>.
\<close>

definition ensure :: "externals \<Rightarrow> world \<Rightarrow> string \<Rightarrow> jsval \<Rightarrow> error + WorkspaceConfig" where
  "ensure X w dirPath workspaceConfigProps =
     (let props = (if workspaceConfigProps = JUndefined then JObj [] else workspaceConfigProps) in
      bind_err (loadIfExist X w dirPath) (\<lambda>found.
        case found of
          Some workspaceConfig \<Rightarrow> Inr workspaceConfig
        | None \<Rightarrow> create X props (Some dirPath)))"

text \<open>
  \<^verbatim>\<open>new AbstractVinyl({ base, path, contents })\<close>. The class is not part of this
  module; it extends the \<^verbatim>\<open>File\<close> class of the vinyl library, whose constructor
  throws when \<^verbatim>\<open>base\<close> is the empty string (a base must be a non-empty string, or
  absent).
\<close>

definition new_AbstractVinyl :: "string \<Rightarrow> string \<Rightarrow> string \<Rightarrow> error + vinyl" where
  "new_AbstractVinyl base fullPath contents =
     (if base = [] then Inl InvalidVinylBase
      else Inr \<lparr> vinyl_base = base, vinyl_path = fullPath, vinyl_contents = contents \<rparr>)"

text \<open>\<^verbatim>\<open>toVinyl(workspaceDir)\<close>; \<open>Inr None\<close> is \<^verbatim>\<open>undefined\<close>.\<close>

definition toVinyl :: "externals \<Rightarrow> WorkspaceConfig \<Rightarrow> string \<Rightarrow> error + vinyl option" where
  "toVinyl X c workspaceDir =
     (if js_truthy (data c) then
        (let jsonStr = stringify X (data c);
             base = workspaceDir;
             fullPath = (if workspaceDir \<noteq> [] then composeBitJsoncPath X workspaceDir
                         else path c)
         in bind_err (new_AbstractVinyl base fullPath jsonStr) (\<lambda>jsonFile. Inr (Some jsonFile)))
      else Inr (case legacyConfig c of None \<Rightarrow> None | Some l \<Rightarrow> legacy_toVinyl l workspaceDir))"

text \<open>
  Modelled from the spec: \<^verbatim>\<open>DataToPersist\<close> is not part of this module. It is the
  persistence collaborator, which accepts virtual-file records (path and contents) and
  performs the actual write of each: a new one holds no file, \<^verbatim>\<open>addFile\<close> adds one,
  \<^verbatim>\<open>persistAllToFS\<close> writes them all.
\<close>

definition new_DataToPersist :: "vinyl list" where
  "new_DataToPersist = []"

definition addFile :: "vinyl list \<Rightarrow> vinyl \<Rightarrow> vinyl list" where
  "addFile dataToPersist file = dataToPersist @ [file]"

definition persistAllToFS :: "vinyl list \<Rightarrow> world \<Rightarrow> world" where
  "persistAllToFS dataToPersist w =
     foldl (\<lambda>w' f. w'\<lparr> files := (files w')(vinyl_path f \<mapsto> vinyl_contents f),
                        persisted := persisted w' @ [f] \<rparr>) w dataToPersist"

text \<open>
  \<^verbatim>\<open>write({ workspaceDir })\<close> (named \<open>write_config\<close> here). A call that throws
  has no resulting file system: it leaves the one it was given. A delegated legacy write
  is recorded, not performed: what the legacy configuration writes is its own business.
\<close>

definition write_config ::
  "externals \<Rightarrow> WorkspaceConfig \<Rightarrow> string \<Rightarrow> world \<Rightarrow> error + world" where
  "write_config X c workspaceDir w =
     (let delegate =
            (case legacyConfig c of
               None \<Rightarrow> w
             | Some l \<Rightarrow> w\<lparr>legacy_writes := legacy_writes w @ [workspaceDir]\<rparr>)
      in if js_truthy (data c) then
           bind_err (toVinyl X c workspaceDir) (\<lambda>file.
             case file of
               Some f \<Rightarrow> Inr (persistAllToFS (addFile new_DataToPersist f) w)
             | None \<Rightarrow> Inr delegate)
         else Inr delegate)"

text \<open>
  ramda's \<^verbatim>\<open>pick(names, obj)\<close> and \<^verbatim>\<open>omit(names, obj)\<close>, external library, on an
  object: \<^verbatim>\<open>pick\<close> copies, in the order of \<^verbatim>\<open>names\<close>, each name that is a property
  of \<^verbatim>\<open>obj\<close>; \<^verbatim>\<open>omit\<close> copies, in the order of \<^verbatim>\<open>obj\<close>, each property whose
  name is not in \<^verbatim>\<open>names\<close>.
\<close>

fun pick_loop ::
  "string list \<Rightarrow> (string \<times> jsval) list \<Rightarrow> (string \<times> jsval) list \<Rightarrow> (string \<times> jsval) list" where
  "pick_loop [] obj result = result"
| "pick_loop (n # ns) obj result =
     pick_loop ns obj (case map_of obj n of None \<Rightarrow> result | Some v \<Rightarrow> obj_put result n v)"

definition pick :: "string list \<Rightarrow> (string \<times> jsval) list \<Rightarrow> (string \<times> jsval) list" where
  "pick names obj = pick_loop names obj []"

definition omit :: "string list \<Rightarrow> (string \<times> jsval) list \<Rightarrow> (string \<times> jsval) list" where
  "omit names obj = filter (\<lambda>(k, v). k \<notin> set names) obj"

text \<open>\<^verbatim>\<open>getCoreExtensionsConfig()\<close>.\<close>

definition workspaceExtPropNames :: "string list" where
  "workspaceExtPropNames = [''defaultScope'', ''componentsDefaultDirectory'']"

definition getCoreExtensionsConfig :: "WorkspaceConfig \<Rightarrow> (string \<times> jsval) list" where
  "getCoreExtensionsConfig c =
     (let workspaceConfig = workspaceSettings c;
          workspaceExtProps = pick workspaceExtPropNames workspaceConfig;
          result = omit workspaceExtPropNames workspaceConfig
      in obj_put result ''workspace'' (JObj workspaceExtProps))"

section \<open>Object identity in create\<close>

text \<open>
  The own properties of a value, as a map; a value that is not an object has none.
\<close>

fun fields :: "jsval \<Rightarrow> string \<rightharpoonup> jsval" where
  "fields (JObj kvs) = map_of kvs"
| "fields v = Map.empty"

text \<open>
  A store of objects: a reference is an index into it. \<^verbatim>\<open>parse\<close> allocates the
  object it returns; \<^verbatim>\<open>assign(target, source)\<close> writes the properties of
  \<^verbatim>\<open>source\<close> into the object \<^verbatim>\<open>target\<close> refers to and returns that same
  reference, as \<^verbatim>\<open>Object.assign\<close> does.
\<close>

type_synonym heap = "(string \<times> jsval) list list"

definition heap_alloc :: "heap \<Rightarrow> (string \<times> jsval) list \<Rightarrow> nat \<times> heap" where
  "heap_alloc h kvs = (length h, h @ [kvs])"

definition assign_ref :: "heap \<Rightarrow> nat \<Rightarrow> jsval \<Rightarrow> nat \<times> heap" where
  "assign_ref h target source =
     (case source of
        JObj ps \<Rightarrow> (target, h[target := assign_props (h ! target) ps])
      | _ \<Rightarrow> (target, h))"

text \<open>
  The first three statements of \<^verbatim>\<open>create\<close> on the store: the result is the
  reference \<^verbatim>\<open>template\<close>, the store after \<^verbatim>\<open>parse\<close>, the reference
  \<^verbatim>\<open>merged\<close> (which becomes the \<^verbatim>\<open>data\<close> of the new instance) and the store
  after \<^verbatim>\<open>assign\<close>.
\<close>

definition create_refs :: "externals \<Rightarrow> jsval \<Rightarrow> heap \<Rightarrow> error + (nat \<times> heap \<times> nat \<times> heap)" where
  "create_refs X props h =
     (case parse X (template X) of
        None \<Rightarrow> Inl SyntaxError
      | Some (JObj t) \<Rightarrow>
          (let (template_ref, h1) = heap_alloc h t;
               (merged_ref, h2) = assign_ref h1 template_ref props
           in Inr (template_ref, h1, merged_ref, h2))
      | Some v \<Rightarrow> Inl TypeError)"

section \<open>Invariants of the data model\<close>

text \<open>
  Exactly one of the two payloads is non-empty: the modern payload is non-empty when it
  is truthy, the legacy payload when it is defined.
\<close>

definition exactly_one_payload :: "WorkspaceConfig \<Rightarrow> bool" where
  "exactly_one_payload c = (js_truthy (data c) \<noteq> (legacyConfig c \<noteq> None))"

text \<open>The settings are those of the payload the constructor chose.\<close>

definition settings_derived :: "externals \<Rightarrow> WorkspaceConfig \<Rightarrow> bool" where
  "settings_derived X c =
     (workspaceSettings c =
        (if js_truthy (data c) then WorkspaceSettings_fromObject X (js_prop (data c) ''workspace'')
         else WorkspaceSettings_fromLegacyConfig X (legacyConfig c)))"

section \<open>Sample collaborators\<close>

text \<open>
  One concrete choice of the collaborators, a legacy configuration and three file
  systems, on which the theorems below are run.
\<close>

definition sample_template :: jsval where
  "sample_template =
     JObj [(''$schema'', JStr ''https://static.bit.dev/schema.json''),
           (''workspace'', JObj [(''defaultScope'', JStr ''org'')]),
           (''components'', JObj [])]"

definition sample_props :: jsval where
  "sample_props = JObj [(''workspace'', JObj [(''defaultScope'', JStr ''acme'')])]"

definition sample_merged :: jsval where
  "sample_merged =
     JObj [(''$schema'', JStr ''https://static.bit.dev/schema.json''),
           (''workspace'', JObj [(''defaultScope'', JStr ''acme'')]),
           (''components'', JObj [])]"

definition sample_externals :: externals where
  "sample_externals =
     \<lparr> BIT_JSONC = ''bit.jsonc'',
       DEFAULT_LANGUAGE = ''javascript'',
       COMPILER_ENV_TYPE = ''compiler'',
       path_join = (\<lambda>d f. d @ ''/'' @ f),
       parse = (\<lambda>s. if s = ''TEMPLATE'' then Some sample_template
                     else if s = ''MERGED'' then Some sample_merged
                     else if s = ''{}'' then Some (JObj [])
                     else None),
       stringify = (\<lambda>v. if v = sample_template then ''TEMPLATE''
                         else if v = sample_merged then ''MERGED''
                         else ''{}''),
       template = ''TEMPLATE'',
       WorkspaceSettings_fromObject = (\<lambda>v. case v of JObj kvs \<Rightarrow> kvs | _ \<Rightarrow> []),
       WorkspaceSettings_fromLegacyConfig = (\<lambda>l. [(''lang'', JStr ''ts'')]),
       ConsumerOverrides_load = (\<lambda>components componentId. js_prop components componentId),
       LegacyWorkspaceConfig_loadIfExist = (\<lambda>fs d. Inr None) \<rparr>"

definition sample_overrides :: ConsumerOverrides where
  "sample_overrides componentId =
     (if componentId = ''ui/button'' then
        JObj [(''env'', JObj [(''compiler'', JStr ''my/typescript'')]), (''keep'', JNum 1)]
      else JUndefined)"

definition sample_legacy :: LegacyWorkspaceConfig where
  "sample_legacy =
     \<lparr> legacy_path = ''/w/bit.json'',
       legacy_lang = ''ts'',
       legacy_compiler = JStr ''bit.envs/babel'',
       legacy_tester = JStr ''bit.envs/mocha'',
       legacy_overrides = Some sample_overrides,
       legacy_toPlainObject =
         JObj [(''lang'', JStr ''ts''),
               (''env'', JObj [(''compiler'', JStr ''bit.envs/babel''),
                               (''tester'', JStr ''bit.envs/mocha'')])],
       legacy_toVinyl = (\<lambda>d. None) \<rparr>"

definition empty_world :: world where
  "empty_world = \<lparr> files = Map.empty, persisted = [], legacy_writes = [] \<rparr>"

definition modern_world :: world where
  "modern_world = \<lparr> files = [''/w/bit.jsonc'' \<mapsto> ''TEMPLATE''], persisted = [], legacy_writes = [] \<rparr>"

definition broken_world :: world where
  "broken_world = \<lparr> files = [''/w/bit.jsonc'' \<mapsto> ''{ not json''], persisted = [], legacy_writes = [] \<rparr>"

section \<open>Properties of objects\<close>

lemma map_of_obj_put: "map_of (obj_put kvs k v) = (map_of kvs)(k \<mapsto> v)"
  by (induction kvs) (auto simp: fun_eq_iff)

lemma fields_js_set: "js_set t k v = Inr t' \<Longrightarrow> fields t' = (fields t)(k \<mapsto> v)"
  by (cases t) (auto simp: map_of_obj_put)

lemma js_prop_js_set:
  "js_set t k v = Inr t' \<Longrightarrow> js_prop t' k' = (if k' = k then v else js_prop t k')"
  by (cases t) (auto simp: map_of_obj_put)

lemma map_of_assign_props: "map_of (assign_props t ps) = map_of t ++ map_of (rev ps)"
  by (induction t ps rule: assign_props.induct)
     (auto simp: map_of_obj_put fun_eq_iff map_add_def split: option.splits)

lemma map_of_pick_loop:
  "map_of (pick_loop ns obj r) k =
     (if k \<in> set ns \<and> map_of obj k \<noteq> None then map_of obj k else map_of r k)"
  by (induction ns obj r rule: pick_loop.induct) (auto simp: map_of_obj_put split: option.splits)

lemma map_of_pick: "map_of (pick ns obj) k = (if k \<in> set ns then map_of obj k else None)"
  by (auto simp: pick_def map_of_pick_loop)

lemma map_of_omit: "map_of (omit ns obj) k = (if k \<in> set ns then None else map_of obj k)"
  unfolding omit_def by (induction obj) auto

section \<open>The path and the language\<close>

text \<open>
  C6, as the claim states it, fails: a path that was set to the empty string does not
  win over the path of a wrapped legacy configuration. On a configuration wrapping the
  sample legacy configuration (path \<^verbatim>\<open>/w/bit.json\<close>), after setting the path to
  \<^verbatim>\<open>''\<close>, reading it returns \<^verbatim>\<open>/w/bit.json\<close>.
\<close>

theorem path_set_empty_counterexample:
  "path (set_path (fromLegacyConfig sample_externals (Some sample_legacy)) []) = ''/w/bit.json''
   \<and> path (set_path (fromLegacyConfig sample_externals (Some sample_legacy)) []) \<noteq> []"
  by (simp add: path_def set_path_def fromLegacyConfig_def new_WorkspaceConfig_def
        sample_legacy_def)

text \<open>
  C6, amended: reading the path returns the explicitly set path when that is a non-empty
  string, else the path of the wrapped legacy configuration when there is one and it is
  non-empty, else the empty string; the result is always a string. For every non-empty
  string \<open>p\<close>, after setting the path to \<open>p\<close>, reading it returns \<open>p\<close>; setting the
  empty string reads the same as a path that was never set.
\<close>

theorem path_precedence:
  "(p \<noteq> [] \<longrightarrow> path (set_path c p) = p)
   \<and> (\<forall>q. priv_path c = Some q \<and> q \<noteq> [] \<longrightarrow> path c = q)
   \<and> (\<forall>l. (priv_path c = None \<or> priv_path c = Some []) \<and> legacyConfig c = Some l
           \<and> legacy_path l \<noteq> [] \<longrightarrow> path c = legacy_path l)
   \<and> ((priv_path c = None \<or> priv_path c = Some [])
        \<and> (legacyConfig c = None \<or> (\<exists>l. legacyConfig c = Some l \<and> legacy_path l = []))
        \<longrightarrow> path c = [])
   \<and> path (set_path c []) = path (c\<lparr>priv_path := None\<rparr>)"
  by (auto simp: path_def set_path_def split: option.splits)

theorem path_precedence_witness:
  "path (set_path (fromLegacyConfig sample_externals (Some sample_legacy)) ''/w/bit.jsonc'')
     = ''/w/bit.jsonc''
   \<and> path (fromLegacyConfig sample_externals (Some sample_legacy)) = ''/w/bit.json''
   \<and> path (fromObject sample_externals sample_template) = []"
  using path_precedence [where p = "''/w/bit.jsonc''"
          and c = "fromLegacyConfig sample_externals (Some sample_legacy)"]
        path_precedence [where p = "[]"
          and c = "fromObject sample_externals sample_template"]
  by (simp add: fromLegacyConfig_def fromObject_def new_WorkspaceConfig_def sample_legacy_def)

text \<open>
  C10: a configuration built from modern data wraps no legacy configuration, and its
  language is the default language constant whatever the payload holds. This covers
  \<^verbatim>\<open>fromObject\<close>, whatever \<^verbatim>\<open>create\<close> returns, and every configuration without a
  legacy configuration.
\<close>

theorem lang_of_modern_config:
  "lang X (fromObject X d) = DEFAULT_LANGUAGE X
   \<and> (legacyConfig c = None \<longrightarrow> lang X c = DEFAULT_LANGUAGE X)
   \<and> (create X props dirPath = Inr c' \<longrightarrow> lang X c' = DEFAULT_LANGUAGE X)"
  by (auto simp: lang_def fromObject_def new_WorkspaceConfig_def create_def bind_err_def
        set_path_def Let_def split: option.splits sum.splits if_splits)

theorem lang_of_modern_config_witness:
  "legacyConfig (fromObject sample_externals (JObj [(''lang'', JStr ''ts'')])) = None
   \<and> lang sample_externals (fromObject sample_externals (JObj [(''lang'', JStr ''ts'')]))
       = ''javascript''"
  using lang_of_modern_config [where X = sample_externals
          and d = "JObj [(''lang'', JStr ''ts'')]"
          and c = "fromObject sample_externals (JObj [(''lang'', JStr ''ts'')])"]
  by (simp add: fromObject_def new_WorkspaceConfig_def sample_externals_def)

section \<open>The extension configuration\<close>

text \<open>
  C5, as the claim states it, fails on a settings field named \<^verbatim>\<open>workspace\<close>: it is
  not one of the two fixed fields, yet it does not appear unchanged at the top level,
  since \<^verbatim>\<open>result.workspace = workspaceExtProps\<close> overwrites it. On the settings
  \<^verbatim>\<open>{ workspace: "x", lang: "ts" }\<close> the result is \<^verbatim>\<open>{ workspace: {}, lang: "ts" }\<close>.
\<close>

theorem getCoreExtensionsConfig_workspace_counterexample:
  "workspaceSettings (fromObject sample_externals
       (JObj [(''workspace'', JObj [(''workspace'', JStr ''x''), (''lang'', JStr ''ts'')])]))
     = [(''workspace'', JStr ''x''), (''lang'', JStr ''ts'')]
   \<and> getCoreExtensionsConfig (fromObject sample_externals
       (JObj [(''workspace'', JObj [(''workspace'', JStr ''x''), (''lang'', JStr ''ts'')])]))
     = [(''workspace'', JObj []), (''lang'', JStr ''ts'')]"
  by (simp add: getCoreExtensionsConfig_def fromObject_def new_WorkspaceConfig_def
        sample_externals_def workspaceExtPropNames_def pick_def omit_def)

text \<open>
  C5, amended: \<^verbatim>\<open>getCoreExtensionsConfig\<close> never throws, and in its result the key
  \<^verbatim>\<open>workspace\<close> holds an object with exactly those of the fixed fields
  \<^verbatim>\<open>defaultScope\<close> and \<^verbatim>\<open>componentsDefaultDirectory\<close> that the settings have, with
  their values; the two fixed fields are absent from the top level; and every remaining
  settings field other than one named \<^verbatim>\<open>workspace\<close> appears unchanged at the top
  level.
\<close>

theorem getCoreExtensionsConfig_partition:
  "map_of (getCoreExtensionsConfig c) ''workspace''
     = Some (JObj (pick workspaceExtPropNames (workspaceSettings c)))
   \<and> (\<forall>k. map_of (pick workspaceExtPropNames (workspaceSettings c)) k
           = (if k = ''defaultScope'' \<or> k = ''componentsDefaultDirectory''
              then map_of (workspaceSettings c) k else None))
   \<and> map_of (getCoreExtensionsConfig c) ''defaultScope'' = None
   \<and> map_of (getCoreExtensionsConfig c) ''componentsDefaultDirectory'' = None
   \<and> (\<forall>k. k \<noteq> ''defaultScope'' \<and> k \<noteq> ''componentsDefaultDirectory'' \<and> k \<noteq> ''workspace''
           \<longrightarrow> map_of (getCoreExtensionsConfig c) k = map_of (workspaceSettings c) k)"
  by (simp add: getCoreExtensionsConfig_def Let_def map_of_obj_put map_of_pick map_of_omit
        workspaceExtPropNames_def)

text \<open>
  The example of the claim: on the settings
  \<^verbatim>\<open>{ defaultScope: "s", componentsDefaultDirectory: "d", lang: "ts" }\<close> the result has
  \<^verbatim>\<open>workspace: { defaultScope: "s", componentsDefaultDirectory: "d" }\<close> and
  \<^verbatim>\<open>lang: "ts"\<close>, and nothing else.
\<close>

theorem getCoreExtensionsConfig_partition_witness:
  "map_of (getCoreExtensionsConfig (fromObject sample_externals
       (JObj [(''workspace'', JObj [(''defaultScope'', JStr ''s''),
                                    (''componentsDefaultDirectory'', JStr ''d''),
                                    (''lang'', JStr ''ts'')])]))) ''lang''
     = Some (JStr ''ts'')
   \<and> getCoreExtensionsConfig (fromObject sample_externals
       (JObj [(''workspace'', JObj [(''defaultScope'', JStr ''s''),
                                    (''componentsDefaultDirectory'', JStr ''d''),
                                    (''lang'', JStr ''ts'')])]))
     = [(''lang'', JStr ''ts''),
        (''workspace'', JObj [(''defaultScope'', JStr ''s''),
                              (''componentsDefaultDirectory'', JStr ''d'')])]"
  using getCoreExtensionsConfig_partition [where c = "fromObject sample_externals
       (JObj [(''workspace'', JObj [(''defaultScope'', JStr ''s''),
                                    (''componentsDefaultDirectory'', JStr ''d''),
                                    (''lang'', JStr ''ts'')])])"]
  by (simp add: getCoreExtensionsConfig_def fromObject_def new_WorkspaceConfig_def
        sample_externals_def workspaceExtPropNames_def pick_def omit_def)


section \<open>The configuration of a component\<close>

lemma bind_err_Inr: "bind_err r f = Inr b \<longleftrightarrow> (\<exists>a. r = Inr a \<and> f a = Inr b)"
  by (cases r) (auto simp: bind_err_def)

lemma env_fallback_fields:
  "env_fallback env pl f = Inr env' \<Longrightarrow> k \<noteq> f \<Longrightarrow> fields env' k = fields env k"
  by (auto simp: env_fallback_def bind_err_Inr split: if_splits dest!: fields_js_set)

lemma fields_falsy: "\<not> js_truthy v \<Longrightarrow> fields v = Map.empty"
  by (cases v) auto

lemma fields_js_or_empty: "fields (js_or v (JObj [])) = fields v"
  by (auto simp: js_or_def fields_falsy)

lemma env_fallback_value:
  assumes "js_truthy pl" and "js_prop pl ''env'' = penv" and "penv \<noteq> JUndefined" and "penv \<noteq> JNull"
  shows "env_fallback (JObj es) pl f =
           Inr (JObj (obj_put es f (if js_truthy (js_prop (JObj es) f) then js_prop (JObj es) f
                                    else js_prop penv f)))"
  using assms by (cases pl) (auto simp: env_fallback_def bind_err_def js_get_def)

lemma getComponentConfig_legacy_value:
  assumes l: "legacyConfig c = Some l"
      and pl: "js_truthy (legacy_toPlainObject l)"
      and penv: "js_prop (legacy_toPlainObject l) ''env'' = penv" "penv \<noteq> JUndefined" "penv \<noteq> JNull"
      and cfg: "overrideRecord X c x = JObj kvs"
      and env0: "js_or (js_prop (JObj kvs) ''env'') (JObj []) = JObj es"
  shows "\<exists>r es'. getComponentConfig X c x = Inr r \<and> js_prop r ''env'' = JObj es'
           \<and> map_of es' ''compiler'' = Some (if js_truthy (js_prop (JObj es) ''compiler'') then js_prop (JObj es) ''compiler'' else js_prop penv ''compiler'')
           \<and> map_of es' ''tester'' = Some (if js_truthy (js_prop (JObj es) ''tester'') then js_prop (JObj es) ''tester'' else js_prop penv ''tester'')"
proof -
  define v1 where "v1 = (if js_truthy (js_prop (JObj es) ''compiler'') then js_prop (JObj es) ''compiler'' else js_prop penv ''compiler'')"
  define v2 where "v2 = (if js_truthy (js_prop (JObj es) ''tester'') then js_prop (JObj es) ''tester'' else js_prop penv ''tester'')"
  define es1 where "es1 = obj_put es ''compiler'' v1"
  define es2 where "es2 = obj_put es1 ''tester'' v2"
  have plo: "legacyPlainObject c = legacy_toPlainObject l"
    by (simp add: legacyPlainObject_def l)
  have f1: "env_fallback (JObj es) (legacy_toPlainObject l) ''compiler'' = Inr (JObj es1)"
    by (simp add: env_fallback_value [OF pl penv] es1_def v1_def)
  have same: "js_prop (JObj es1) ''tester'' = js_prop (JObj es) ''tester''"
    by (simp add: es1_def map_of_obj_put)
  have f2: "env_fallback (JObj es1) (legacy_toPlainObject l) ''tester'' = Inr (JObj es2)"
    by (simp only: env_fallback_value [OF pl penv] same es2_def v2_def)
  have run: "getComponentConfig X c x =
               Inr (JObj (obj_put (obj_put (obj_put kvs ''env'' (JObj es)) ''env'' (JObj es1))
                            ''env'' (JObj es2)))"
    unfolding getComponentConfig_def Let_def plo cfg env0
    by (simp add: pl f1 f2 bind_err_def)
  have "js_prop (JObj (obj_put (obj_put (obj_put kvs ''env'' (JObj es)) ''env'' (JObj es1))
                            ''env'' (JObj es2))) ''env'' = JObj es2"
    by (simp add: map_of_obj_put)
  moreover have "map_of es2 ''compiler'' = Some v1" "map_of es2 ''tester'' = Some v2"
    by (simp_all add: es2_def es1_def map_of_obj_put)
  ultimately show ?thesis
    using run unfolding v1_def v2_def by blast
qed

text \<open>
  C1: let the configuration wrap a legacy configuration whose plain-object snapshot has
  an \<^verbatim>\<open>env\<close> section, with root-level compiler \<open>C\<close> and tester \<open>T\<close> there. For a
  component id with no matching override (the override record is empty),
  \<^verbatim>\<open>getComponentConfig\<close> returns a record whose \<^verbatim>\<open>env.compiler\<close> is \<open>C\<close> and
  whose \<^verbatim>\<open>env.tester\<close> is \<open>T\<close>. When the override record supplies an
  \<^verbatim>\<open>env.compiler\<close> \<open>C2\<close> (a compiler id, hence a truthy value), the result's
  \<^verbatim>\<open>env.compiler\<close> is \<open>C2\<close>: the override wins over the legacy fallback; likewise
  for \<^verbatim>\<open>env.tester\<close>.
\<close>

theorem getComponentConfig_legacy_env:
  assumes l: "legacyConfig c = Some l"
      and pl: "js_truthy (legacy_toPlainObject l)"
      and penv: "js_prop (legacy_toPlainObject l) ''env'' = penv" "penv \<noteq> JUndefined" "penv \<noteq> JNull"
  shows "(overrideRecord X c x = JObj [] \<longrightarrow>
            (\<exists>r. getComponentConfig X c x = Inr r
               \<and> js_prop (js_prop r ''env'') ''compiler'' = js_prop penv ''compiler''
               \<and> js_prop (js_prop r ''env'') ''tester'' = js_prop penv ''tester''))
       \<and> (js_truthy (js_prop (js_prop (overrideRecord X c x) ''env'') ''compiler'') \<longrightarrow>
            (\<exists>r. getComponentConfig X c x = Inr r
               \<and> js_prop (js_prop r ''env'') ''compiler''
                   = js_prop (js_prop (overrideRecord X c x) ''env'') ''compiler''))
       \<and> (js_truthy (js_prop (js_prop (overrideRecord X c x) ''env'') ''tester'') \<longrightarrow>
            (\<exists>r. getComponentConfig X c x = Inr r
               \<and> js_prop (js_prop r ''env'') ''tester''
                   = js_prop (js_prop (overrideRecord X c x) ''env'') ''tester''))"
proof (intro conjI impI)
  assume e: "overrideRecord X c x = JObj []"
  have "js_or (js_prop (JObj []) ''env'') (JObj []) = JObj []"
    by (simp add: js_or_def)
  from getComponentConfig_legacy_value [OF l pl penv e this]
  show "\<exists>r. getComponentConfig X c x = Inr r
          \<and> js_prop (js_prop r ''env'') ''compiler'' = js_prop penv ''compiler''
          \<and> js_prop (js_prop r ''env'') ''tester'' = js_prop penv ''tester''"
    by auto
next
  fix f :: string
  assume t: "js_truthy (js_prop (js_prop (overrideRecord X c x) ''env'') ''compiler'')"
  then obtain kvs where cfg: "overrideRecord X c x = JObj kvs"
    by (cases "overrideRecord X c x") auto
  from t cfg obtain es where es: "js_prop (JObj kvs) ''env'' = JObj es"
    by (cases "js_prop (JObj kvs) ''env''") auto
  then have "js_or (js_prop (JObj kvs) ''env'') (JObj []) = JObj es"
    by (simp add: js_or_def)
  from getComponentConfig_legacy_value [OF l pl penv cfg this] t
  show "\<exists>r. getComponentConfig X c x = Inr r
          \<and> js_prop (js_prop r ''env'') ''compiler''
              = js_prop (js_prop (overrideRecord X c x) ''env'') ''compiler''"
    unfolding cfg es by auto
next
  assume t: "js_truthy (js_prop (js_prop (overrideRecord X c x) ''env'') ''tester'')"
  then obtain kvs where cfg: "overrideRecord X c x = JObj kvs"
    by (cases "overrideRecord X c x") auto
  from t cfg obtain es where es: "js_prop (JObj kvs) ''env'' = JObj es"
    by (cases "js_prop (JObj kvs) ''env''") auto
  then have "js_or (js_prop (JObj kvs) ''env'') (JObj []) = JObj es"
    by (simp add: js_or_def)
  from getComponentConfig_legacy_value [OF l pl penv cfg this] t
  show "\<exists>r. getComponentConfig X c x = Inr r
          \<and> js_prop (js_prop r ''env'') ''tester''
              = js_prop (js_prop (overrideRecord X c x) ''env'') ''tester''"
    unfolding cfg es by auto
qed

text \<open>
  C2, amended: whenever \<^verbatim>\<open>getComponentConfig\<close> returns a record, every top-level
  field other than \<^verbatim>\<open>env\<close> is as the override record has it (present with the same
  value, or absent), and so is every field of \<^verbatim>\<open>env\<close> other than \<^verbatim>\<open>compiler\<close>
  and \<^verbatim>\<open>tester\<close>; for a configuration that wraps no legacy configuration the result
  is the override record itself, with no legacy fallback at all.
\<close>

theorem getComponentConfig_frame:
  assumes "getComponentConfig X c x = Inr r"
  shows "(\<forall>k. k \<noteq> ''env'' \<longrightarrow> fields r k = fields (overrideRecord X c x) k)
       \<and> (\<forall>k. k \<noteq> ''compiler'' \<and> k \<noteq> ''tester'' \<longrightarrow>
              fields (js_prop r ''env'') k = fields (js_prop (overrideRecord X c x) ''env'') k)
       \<and> (legacyConfig c = None \<longrightarrow> r = overrideRecord X c x)"
proof (cases "js_truthy (legacyPlainObject c)")
  case False
  with assms have "r = overrideRecord X c x"
    by (simp add: getComponentConfig_def Let_def)
  then show ?thesis by simp
next
  case True
  then have leg: "legacyConfig c \<noteq> None"
    by (auto simp: legacyPlainObject_def split: option.splits)
  define config where "config = overrideRecord X c x"
  define env0 where "env0 = js_or (js_prop config ''env'') (JObj [])"
  from assms True obtain config1 env1 config2 env2 where
      s1: "js_set config ''env'' env0 = Inr config1"
  and f1: "env_fallback env0 (legacyPlainObject c) ''compiler'' = Inr env1"
  and s2: "js_set config1 ''env'' env1 = Inr config2"
  and f2: "env_fallback env1 (legacyPlainObject c) ''tester'' = Inr env2"
  and s3: "js_set config2 ''env'' env2 = Inr r"
    by (auto simp: getComponentConfig_def Let_def bind_err_Inr config_def env0_def)
  have top: "fields r k = fields config k" if "k \<noteq> ''env''" for k
    using that fields_js_set [OF s1] fields_js_set [OF s2] fields_js_set [OF s3] by simp
  have renv: "js_prop r ''env'' = env2"
    using js_prop_js_set [OF s3] by simp
  have sub: "fields env2 k = fields (js_prop config ''env'') k"
    if "k \<noteq> ''compiler''" "k \<noteq> ''tester''" for k
    using that env_fallback_fields [OF f1] env_fallback_fields [OF f2]
    by (simp add: env0_def fields_js_or_empty)
  show ?thesis
  proof (intro conjI allI impI)
    fix k :: string
    assume "k \<noteq> ''env''"
    then show "fields r k = fields (overrideRecord X c x) k"
      using top by (simp add: config_def)
  next
    fix k :: string
    assume "k \<noteq> ''compiler'' \<and> k \<noteq> ''tester''"
    then show "fields (js_prop r ''env'') k = fields (js_prop (overrideRecord X c x) ''env'') k"
      using sub renv by (simp add: config_def)
  next
    assume "legacyConfig c = None"
    with leg show "r = overrideRecord X c x" by simp
  qed
qed

subsection \<open>On the sample legacy configuration\<close>

lemma sample_legacy_config:
  "legacyConfig (fromLegacyConfig sample_externals (Some sample_legacy)) = Some sample_legacy"
  "data (fromLegacyConfig sample_externals (Some sample_legacy)) = JUndefined"
  by (simp_all add: fromLegacyConfig_def new_WorkspaceConfig_def)

lemma sample_legacy_plain:
  "js_truthy (legacy_toPlainObject sample_legacy)"
  "js_prop (legacy_toPlainObject sample_legacy) ''env''
     = JObj [(''compiler'', JStr ''bit.envs/babel''), (''tester'', JStr ''bit.envs/mocha'')]"
  by (simp_all add: sample_legacy_def)

lemma sample_legacy_plain_object:
  "legacy_toPlainObject sample_legacy
     = JObj [(''lang'', JStr ''ts''),
             (''env'', JObj [(''compiler'', JStr ''bit.envs/babel''),
                             (''tester'', JStr ''bit.envs/mocha'')])]"
  by (simp add: sample_legacy_def)

lemma sample_legacy_overrides: "legacy_overrides sample_legacy = Some sample_overrides"
  by (simp add: sample_legacy_def)

lemma sample_overrideRecord:
  "overrideRecord sample_externals (fromLegacyConfig sample_externals (Some sample_legacy)) x
     = js_or (sample_overrides x) (JObj [])"
  by (simp add: overrideRecord_def componentsConfig_def sample_legacy_config sample_legacy_overrides)

lemma sample_getComponentConfig_button:
  "getComponentConfig sample_externals (fromLegacyConfig sample_externals (Some sample_legacy))
       ''ui/button''
     = Inr (JObj [(''env'', JObj [(''compiler'', JStr ''my/typescript''),
                                  (''tester'', JStr ''bit.envs/mocha'')]),
                  (''keep'', JNum 1)])"
  by (simp add: getComponentConfig_def sample_overrideRecord legacyPlainObject_def
        sample_legacy_config sample_legacy_plain_object env_fallback_def bind_err_def js_get_def
        js_or_def sample_overrides_def Let_def)

text \<open>
  C1 on the sample: \<^verbatim>\<open>lib/other\<close> matches no override and inherits
  both legacy environments; \<^verbatim>\<open>ui/button\<close> keeps the compiler of its override.
\<close>

theorem getComponentConfig_legacy_env_witness:
  "legacyConfig (fromLegacyConfig sample_externals (Some sample_legacy)) = Some sample_legacy
   \<and> overrideRecord sample_externals (fromLegacyConfig sample_externals (Some sample_legacy))
         ''lib/other'' = JObj []
   \<and> (\<exists>r. getComponentConfig sample_externals
              (fromLegacyConfig sample_externals (Some sample_legacy)) ''lib/other'' = Inr r
          \<and> js_prop (js_prop r ''env'') ''compiler'' = JStr ''bit.envs/babel''
          \<and> js_prop (js_prop r ''env'') ''tester'' = JStr ''bit.envs/mocha'')
   \<and> js_prop (js_prop (overrideRecord sample_externals
              (fromLegacyConfig sample_externals (Some sample_legacy)) ''ui/button'') ''env'')
         ''compiler'' = JStr ''my/typescript''
   \<and> (\<exists>r. getComponentConfig sample_externals
              (fromLegacyConfig sample_externals (Some sample_legacy)) ''ui/button'' = Inr r
          \<and> js_prop (js_prop r ''env'') ''compiler'' = JStr ''my/typescript'')"
proof -
  have other: "overrideRecord sample_externals
      (fromLegacyConfig sample_externals (Some sample_legacy)) ''lib/other'' = JObj []"
    by (simp add: sample_overrideRecord sample_overrides_def js_or_def)
  have button: "js_prop (js_prop (overrideRecord sample_externals
      (fromLegacyConfig sample_externals (Some sample_legacy)) ''ui/button'') ''env'')
      ''compiler'' = JStr ''my/typescript''"
    by (simp add: sample_overrideRecord sample_overrides_def js_or_def)
  have ne: "JObj [(''compiler'', JStr ''bit.envs/babel''), (''tester'', JStr ''bit.envs/mocha'')]
              \<noteq> JUndefined"
           "JObj [(''compiler'', JStr ''bit.envs/babel''), (''tester'', JStr ''bit.envs/mocha'')]
              \<noteq> JNull"
    by simp_all
  note inst = getComponentConfig_legacy_env
    [OF sample_legacy_config(1) sample_legacy_plain ne, where X = sample_externals]
  from inst [of "''lib/other''"] other
  have a: "\<exists>r. getComponentConfig sample_externals
              (fromLegacyConfig sample_externals (Some sample_legacy)) ''lib/other'' = Inr r
          \<and> js_prop (js_prop r ''env'') ''compiler'' = JStr ''bit.envs/babel''
          \<and> js_prop (js_prop r ''env'') ''tester'' = JStr ''bit.envs/mocha''"
    by simp
  from inst [of "''ui/button''"] button
  have b: "\<exists>r. getComponentConfig sample_externals
              (fromLegacyConfig sample_externals (Some sample_legacy)) ''ui/button'' = Inr r
          \<and> js_prop (js_prop r ''env'') ''compiler'' = JStr ''my/typescript''"
    by simp
  show ?thesis
    using a b other button sample_legacy_config(1) by blast
qed

text \<open>
  C2, as the claim states it, fails on a configuration that holds modern data and wraps a
  legacy configuration as well, which the public constructor builds: the fallback is
  gated on the legacy configuration alone. \<^verbatim>\<open>new WorkspaceConfig(data, legacyConfig)\<close>
  on the sample template and the sample legacy configuration holds modern data, its
  override record for \<^verbatim>\<open>lib/other\<close> is empty, and \<^verbatim>\<open>getComponentConfig\<close> returns
  the legacy compiler and tester.
\<close>

theorem getComponentConfig_both_payloads_counterexample:
  "js_truthy (data (new_WorkspaceConfig sample_externals sample_template (Some sample_legacy)))
   \<and> overrideRecord sample_externals
         (new_WorkspaceConfig sample_externals sample_template (Some sample_legacy)) ''lib/other''
       = JObj []
   \<and> getComponentConfig sample_externals
         (new_WorkspaceConfig sample_externals sample_template (Some sample_legacy)) ''lib/other''
       = Inr (JObj [(''env'', JObj [(''compiler'', JStr ''bit.envs/babel''),
                                    (''tester'', JStr ''bit.envs/mocha'')])])"
proof -
  have d: "data (new_WorkspaceConfig sample_externals sample_template (Some sample_legacy))
             = sample_template"
    and l: "legacyConfig (new_WorkspaceConfig sample_externals sample_template (Some sample_legacy))
             = Some sample_legacy"
    by (simp_all add: new_WorkspaceConfig_def)
  have t: "js_truthy sample_template"
    by (simp add: sample_template_def)
  have ld: "ConsumerOverrides_load sample_externals (js_prop sample_template ''components'')
              ''lib/other'' = JUndefined"
    by (simp add: sample_externals_def sample_template_def)
  have ov: "overrideRecord sample_externals
         (new_WorkspaceConfig sample_externals sample_template (Some sample_legacy)) ''lib/other''
       = JObj []"
    by (simp add: overrideRecord_def componentsConfig_def d t ld js_or_def)
  have run: "getComponentConfig sample_externals
         (new_WorkspaceConfig sample_externals sample_template (Some sample_legacy)) ''lib/other''
       = Inr (JObj [(''env'', JObj [(''compiler'', JStr ''bit.envs/babel''),
                                    (''tester'', JStr ''bit.envs/mocha'')])])"
    by (simp add: getComponentConfig_def ov legacyPlainObject_def l sample_legacy_plain_object
          env_fallback_def bind_err_def js_get_def js_or_def Let_def)
  show ?thesis
    using d t ov run by simp
qed

text \<open>
  C2, amended, on the sample: the field \<^verbatim>\<open>keep\<close> of the override of
  \<^verbatim>\<open>ui/button\<close>.
\<close>

theorem getComponentConfig_frame_witness:
  "getComponentConfig sample_externals (fromLegacyConfig sample_externals (Some sample_legacy))
       ''ui/button''
     = Inr (JObj [(''env'', JObj [(''compiler'', JStr ''my/typescript''),
                                  (''tester'', JStr ''bit.envs/mocha'')]),
                  (''keep'', JNum 1)])
   \<and> fields (overrideRecord sample_externals
         (fromLegacyConfig sample_externals (Some sample_legacy)) ''ui/button'') ''keep''
     = Some (JNum 1)
   \<and> fields (JObj [(''env'', JObj [(''compiler'', JStr ''my/typescript''),
                                     (''tester'', JStr ''bit.envs/mocha'')]),
                     (''keep'', JNum 1)]) ''keep''
     = fields (overrideRecord sample_externals
         (fromLegacyConfig sample_externals (Some sample_legacy)) ''ui/button'') ''keep''"
  using getComponentConfig_frame [OF sample_getComponentConfig_button]
  by (simp add: sample_getComponentConfig_button sample_overrideRecord sample_overrides_def
        js_or_def)


section \<open>Loading, creating and writing\<close>

lemma path_set_path_modern:
  "legacyConfig c = None \<Longrightarrow> path (set_path c p) = p"
  by (simp add: path_def set_path_def)

lemma fromObject_fields:
  "data (fromObject X d) = d" "legacyConfig (fromObject X d) = None"
  "priv_path (fromObject X d) = None"
  by (simp_all add: fromObject_def new_WorkspaceConfig_def)

lemma set_path_fields:
  "data (set_path c p) = data c" "legacyConfig (set_path c p) = legacyConfig c"
  "workspaceSettings (set_path c p) = workspaceSettings c" "priv_path (set_path c p) = Some p"
  by (simp_all add: set_path_def)

lemma loadIfExist_modern:
  "files w (composeBitJsoncPath X dirPath) = Some content \<Longrightarrow>
   loadIfExist X w dirPath =
     (case parse X content of
        None \<Rightarrow> Inl (InvalidConfigFile (composeBitJsoncPath X dirPath))
      | Some parsed \<Rightarrow> Inr (Some (set_path (fromObject X parsed) (composeBitJsoncPath X dirPath))))"
  by (simp add: loadIfExist_def pathHasBitJsonc_def loadFromBitJsonc_def bind_err_def Let_def
        split: option.splits)

lemma loadIfExist_legacy:
  "files w (composeBitJsoncPath X dirPath) = None \<Longrightarrow>
   loadIfExist X w dirPath =
     (case LegacyWorkspaceConfig_loadIfExist X (files w) dirPath of
        Inl msg \<Rightarrow> Inl (LegacyLoadError msg)
      | Inr None \<Rightarrow> Inr None
      | Inr (Some legacy) \<Rightarrow> Inr (Some (fromLegacyConfig X (Some legacy))))"
  by (simp add: loadIfExist_def pathHasBitJsonc_def)

text \<open>
  C4: \<^verbatim>\<open>loadIfExist\<close> raises \<^verbatim>\<open>InvalidConfigFile\<close> exactly when the modern
  configuration file exists and does not parse, and then for the path of that file; when
  neither that file nor a legacy configuration is found it returns \<^verbatim>\<open>undefined\<close>; a
  legacy configuration that is found is wrapped; and when the modern file exists and
  parses, the result is the configuration built from the parsed payload, whose path reads
  as the path of the file.
\<close>

theorem loadIfExist_spec:
  "((\<exists>p. loadIfExist X w dirPath = Inl (InvalidConfigFile p))
      \<longleftrightarrow> (\<exists>content. files w (composeBitJsoncPath X dirPath) = Some content
                       \<and> parse X content = None))
   \<and> (\<forall>content. files w (composeBitJsoncPath X dirPath) = Some content \<and> parse X content = None
         \<longrightarrow> loadIfExist X w dirPath = Inl (InvalidConfigFile (composeBitJsoncPath X dirPath)))
   \<and> (files w (composeBitJsoncPath X dirPath) = None
        \<and> LegacyWorkspaceConfig_loadIfExist X (files w) dirPath = Inr None
        \<longrightarrow> loadIfExist X w dirPath = Inr None)
   \<and> (\<forall>legacy. files w (composeBitJsoncPath X dirPath) = None
        \<and> LegacyWorkspaceConfig_loadIfExist X (files w) dirPath = Inr (Some legacy)
        \<longrightarrow> loadIfExist X w dirPath = Inr (Some (fromLegacyConfig X (Some legacy))))
   \<and> (\<forall>content parsed.
         files w (composeBitJsoncPath X dirPath) = Some content \<and> parse X content = Some parsed
         \<longrightarrow> (\<exists>c. loadIfExist X w dirPath = Inr (Some c)
                  \<and> c = set_path (fromObject X parsed) (composeBitJsoncPath X dirPath)
                  \<and> data c = parsed
                  \<and> path c = composeBitJsoncPath X dirPath))"
proof (cases "files w (composeBitJsoncPath X dirPath)")
  case None
  then show ?thesis
    by (auto simp: loadIfExist_legacy split: sum.splits option.splits)
next
  case (Some content)
  then show ?thesis
    by (auto simp: loadIfExist_modern path_set_path_modern fromObject_fields set_path_fields
          split: option.splits)
qed

lemma ensure_found:
  "loadIfExist X w dirPath = Inr (Some c) \<Longrightarrow> ensure X w dirPath props = Inr c"
  by (simp add: ensure_def bind_err_def)

lemma ensure_not_found:
  "loadIfExist X w dirPath = Inr None \<Longrightarrow>
   ensure X w dirPath props =
     create X (if props = JUndefined then JObj [] else props) (Some dirPath)"
  by (simp add: ensure_def bind_err_def)

lemma assign_Inr: "assign t s = Inr m \<Longrightarrow> \<exists>kvs. m = JObj kvs"
  by (cases "(t, s)" rule: assign.cases) auto

lemma assign_obj: "\<exists>m. assign (JObj t) s = Inr (JObj m)"
  by (cases s) auto

lemma create_value:
  "parse X (template X) = Some (JObj t) \<Longrightarrow> assign (JObj t) props = Inr merged \<Longrightarrow> dirPath \<noteq> [] \<Longrightarrow>
   create X props (Some dirPath)
     = Inr (set_path (new_WorkspaceConfig X merged None) (composeBitJsoncPath X dirPath))"
  by (simp add: create_def bind_err_def)

lemma create_result:
  assumes "create X props dirPath = Inr c"
  shows "\<exists>t merged. parse X (template X) = Some t \<and> assign t props = Inr (JObj merged)
       \<and> (c = new_WorkspaceConfig X (JObj merged) None
          \<or> (\<exists>p. c = set_path (new_WorkspaceConfig X (JObj merged) None) p))"
proof -
  from assms obtain t where t: "parse X (template X) = Some t"
    by (auto simp: create_def split: option.splits)
  with assms obtain m where m: "assign t props = Inr m"
    and c: "c = (case dirPath of
                   None \<Rightarrow> new_WorkspaceConfig X m None
                 | Some d \<Rightarrow> if d \<noteq> []
                             then set_path (new_WorkspaceConfig X m None) (composeBitJsoncPath X d)
                             else new_WorkspaceConfig X m None)"
    by (auto simp: create_def bind_err_Inr Let_def)
  from assign_Inr [OF m] obtain kvs where kvs: "m = JObj kvs"
    by blast
  have "c = new_WorkspaceConfig X (JObj kvs) None
          \<or> (\<exists>p. c = set_path (new_WorkspaceConfig X (JObj kvs) None) p)"
    unfolding c kvs by (cases dirPath) auto
  with t m kvs show ?thesis by blast
qed

lemma create_data:
  assumes "create X props dirPath = Inr c" and "parse X (template X) = Some (JObj t)"
  shows "data c = JObj (case props of JObj ps \<Rightarrow> assign_props t ps | _ \<Rightarrow> t)"
proof -
  from create_result [OF assms(1)] assms(2) obtain merged where
    m: "assign (JObj t) props = Inr (JObj merged)"
    and c: "c = new_WorkspaceConfig X (JObj merged) None
          \<or> (\<exists>p. c = set_path (new_WorkspaceConfig X (JObj merged) None) p)"
    by auto
  from c have "data c = JObj merged"
    by (auto simp: new_WorkspaceConfig_def set_path_def)
  moreover from m have "merged = (case props of JObj ps \<Rightarrow> assign_props t ps | _ \<Rightarrow> t)"
    by (cases props) auto
  ultimately show ?thesis by simp
qed

lemma create_template_object:
  assumes "create X props dirPath = Inr c"
  shows "\<exists>t. parse X (template X) = Some (JObj t)"
proof -
  from create_result [OF assms] obtain t merged where
    "parse X (template X) = Some t" "assign t props = Inr (JObj merged)"
    by blast
  then show ?thesis
    by (cases "(t, props)" rule: assign.cases) auto
qed

lemma toVinyl_modern:
  "js_truthy (data c) \<Longrightarrow> workspaceDir \<noteq> [] \<Longrightarrow>
   toVinyl X c workspaceDir =
     Inr (Some \<lparr> vinyl_base = workspaceDir,
                 vinyl_path = composeBitJsoncPath X workspaceDir,
                 vinyl_contents = stringify X (data c) \<rparr>)"
  by (simp add: toVinyl_def new_AbstractVinyl_def bind_err_def)

lemma toVinyl_empty_base:
  "js_truthy (data c) \<Longrightarrow> toVinyl X c [] = Inl InvalidVinylBase"
  by (simp add: toVinyl_def new_AbstractVinyl_def bind_err_def)

lemma write_config_modern:
  "js_truthy (data c) \<Longrightarrow> workspaceDir \<noteq> [] \<Longrightarrow>
   write_config X c workspaceDir w =
     Inr (w\<lparr> files := (files w)(composeBitJsoncPath X workspaceDir \<mapsto> stringify X (data c)),
             persisted := persisted w @
               [\<lparr> vinyl_base = workspaceDir,
                  vinyl_path = composeBitJsoncPath X workspaceDir,
                  vinyl_contents = stringify X (data c) \<rparr>] \<rparr>)"
  by (simp add: write_config_def toVinyl_modern bind_err_def persistAllToFS_def addFile_def
        new_DataToPersist_def)

lemma write_config_empty_base:
  "js_truthy (data c) \<Longrightarrow> write_config X c [] w = Inl InvalidVinylBase"
  by (simp add: write_config_def toVinyl_empty_base bind_err_def)

lemma write_config_legacy:
  "\<not> js_truthy (data c) \<Longrightarrow>
   write_config X c workspaceDir w =
     Inr (case legacyConfig c of
            None \<Rightarrow> w
          | Some l \<Rightarrow> w\<lparr>legacy_writes := legacy_writes w @ [workspaceDir]\<rparr>)"
  by (simp add: write_config_def)

text \<open>
  C3: \<^verbatim>\<open>ensure\<close> returns the configuration \<^verbatim>\<open>loadIfExist\<close> finds when there is
  one, and otherwise whatever \<^verbatim>\<open>create\<close> returns for the given properties (the empty
  object by default). For a directory path (a non-empty string) and a template that
  parses to an object, that is a new configuration whose data is the template with the
  properties merged over it: a key of the properties has the value the properties give it
  (the last one, should a key repeat), every other key has the template's value, and
  properties that are absent or not an object leave the template as it is; its path is
  the composed \<^verbatim>\<open>bit.jsonc\<close> path. Once a configuration with modern data has been
  written for that directory, \<^verbatim>\<open>ensure\<close> returns what it loads from the written file,
  whatever properties it is given, and never a configuration created from the template.
\<close>

theorem ensure_spec:
  "(\<forall>c. loadIfExist X w dirPath = Inr (Some c) \<longrightarrow> ensure X w dirPath props = Inr c)
   \<and> (loadIfExist X w dirPath = Inr None \<longrightarrow>
        ensure X w dirPath props
          = create X (if props = JUndefined then JObj [] else props) (Some dirPath))
   \<and> (\<forall>t. loadIfExist X w dirPath = Inr None \<and> dirPath \<noteq> []
            \<and> parse X (template X) = Some (JObj t) \<longrightarrow>
        (\<exists>c. ensure X w dirPath props = Inr c
           \<and> (\<forall>ps. props = JObj ps \<longrightarrow>
                 data c = JObj (assign_props t ps)
                 \<and> (\<forall>k. fields (data c) k
                         = (case map_of (rev ps) k of Some v \<Rightarrow> Some v | None \<Rightarrow> map_of t k)))
           \<and> ((\<forall>ps. props \<noteq> JObj ps) \<longrightarrow> data c = JObj t)
           \<and> js_truthy (data c) \<and> legacyConfig c = None \<and> priv_path c = Some (composeBitJsoncPath X dirPath)
           \<and> path c = composeBitJsoncPath X dirPath))
   \<and> (\<forall>c. js_truthy (data c) \<and> dirPath \<noteq> [] \<longrightarrow>
        (\<exists>w'. write_config X c dirPath w = Inr w'
           \<and> files w' (composeBitJsoncPath X dirPath) = Some (stringify X (data c))
           \<and> ensure X w' dirPath props
               = (case parse X (stringify X (data c)) of
                    None \<Rightarrow> Inl (InvalidConfigFile (composeBitJsoncPath X dirPath))
                  | Some d \<Rightarrow> Inr (set_path (fromObject X d) (composeBitJsoncPath X dirPath)))))"
proof (intro conjI allI impI)
  fix c :: WorkspaceConfig assume "loadIfExist X w dirPath = Inr (Some c)"
  then show "ensure X w dirPath props = Inr c" by (rule ensure_found)
next
  assume "loadIfExist X w dirPath = Inr None"
  then show "ensure X w dirPath props
          = create X (if props = JUndefined then JObj [] else props) (Some dirPath)"
    by (rule ensure_not_found)
next
  fix t
  assume a: "loadIfExist X w dirPath = Inr None \<and> dirPath \<noteq> []
            \<and> parse X (template X) = Some (JObj t)"
  define props' where "props' = (if props = JUndefined then JObj [] else props)"
  obtain m where m: "assign (JObj t) props' = Inr (JObj m)"
    using assign_obj by blast
  define c where "c = set_path (new_WorkspaceConfig X (JObj m) None) (composeBitJsoncPath X dirPath)"
  have made: "create X props' (Some dirPath) = Inr c"
    using a m by (simp add: create_value c_def)
  have run: "ensure X w dirPath props = Inr c"
    using a made by (simp add: ensure_not_found props'_def)
  have dat: "data c = JObj (case props' of JObj ps \<Rightarrow> assign_props t ps | _ \<Rightarrow> t)"
    using create_data [OF made] a by simp
  have obj: "data c = JObj (assign_props t ps)
             \<and> (\<forall>k. fields (data c) k
                     = (case map_of (rev ps) k of Some v \<Rightarrow> Some v | None \<Rightarrow> map_of t k))"
    if "props = JObj ps" for ps
    using dat that by (simp add: props'_def map_of_assign_props map_add_def)
  have non: "data c = JObj t" if "\<forall>ps. props \<noteq> JObj ps"
    using dat that by (cases props) (simp_all add: props'_def)
  have rest: "js_truthy (data c)" "legacyConfig c = None"
       "priv_path c = Some (composeBitJsoncPath X dirPath)"
    by (simp_all add: c_def set_path_fields new_WorkspaceConfig_def)
  have pth: "path c = composeBitJsoncPath X dirPath"
    unfolding c_def by (rule path_set_path_modern) (simp add: new_WorkspaceConfig_def)
  show "\<exists>c. ensure X w dirPath props = Inr c
           \<and> (\<forall>ps. props = JObj ps \<longrightarrow>
                 data c = JObj (assign_props t ps)
                 \<and> (\<forall>k. fields (data c) k
                         = (case map_of (rev ps) k of Some v \<Rightarrow> Some v | None \<Rightarrow> map_of t k)))
           \<and> ((\<forall>ps. props \<noteq> JObj ps) \<longrightarrow> data c = JObj t)
           \<and> js_truthy (data c) \<and> legacyConfig c = None \<and> priv_path c = Some (composeBitJsoncPath X dirPath)
           \<and> path c = composeBitJsoncPath X dirPath"
    using run obj non rest pth by blast
next
  fix c :: WorkspaceConfig assume a: "js_truthy (data c) \<and> dirPath \<noteq> []"
  define w' where "w' = w\<lparr> files := (files w)(composeBitJsoncPath X dirPath \<mapsto> stringify X (data c)),
             persisted := persisted w @
               [\<lparr> vinyl_base = dirPath,
                  vinyl_path = composeBitJsoncPath X dirPath,
                  vinyl_contents = stringify X (data c) \<rparr>] \<rparr>"
  have wr: "write_config X c dirPath w = Inr w'"
    using a by (simp add: write_config_modern w'_def)
  have fl: "files w' (composeBitJsoncPath X dirPath) = Some (stringify X (data c))"
    by (simp add: w'_def)
  then have "loadIfExist X w' dirPath =
     (case parse X (stringify X (data c)) of
        None \<Rightarrow> Inl (InvalidConfigFile (composeBitJsoncPath X dirPath))
      | Some parsed \<Rightarrow> Inr (Some (set_path (fromObject X parsed) (composeBitJsoncPath X dirPath))))"
    by (rule loadIfExist_modern)
  then have "ensure X w' dirPath props
          = (case parse X (stringify X (data c)) of
               None \<Rightarrow> Inl (InvalidConfigFile (composeBitJsoncPath X dirPath))
             | Some d \<Rightarrow> Inr (set_path (fromObject X d) (composeBitJsoncPath X dirPath)))"
    by (simp add: ensure_def bind_err_def split: option.splits)
  with wr fl show "\<exists>w'. write_config X c dirPath w = Inr w'
           \<and> files w' (composeBitJsoncPath X dirPath) = Some (stringify X (data c))
           \<and> ensure X w' dirPath props
               = (case parse X (stringify X (data c)) of
                    None \<Rightarrow> Inl (InvalidConfigFile (composeBitJsoncPath X dirPath))
                  | Some d \<Rightarrow> Inr (set_path (fromObject X d) (composeBitJsoncPath X dirPath)))"
    by blast
qed

text \<open>
  C8: with modern data and a workspace directory (a non-empty string),
  \<^verbatim>\<open>write\<close> persists exactly one virtual file, at the composed \<^verbatim>\<open>bit.jsonc\<close>
  path under that directory, holding the serialised data, and delegates nothing; with
  legacy data only it delegates to the legacy configuration's \<^verbatim>\<open>write\<close> and
  persists nothing itself; whenever it returns it has persisted at most one virtual file
  and changed the contents of at most one path; and it throws, persisting nothing, only
  when it holds modern data and is given the empty string for a directory.
\<close>

theorem write_config_spec:
  "(js_truthy (data c) \<and> workspaceDir \<noteq> [] \<longrightarrow>
      write_config X c workspaceDir w =
        Inr (w\<lparr> files := (files w)(composeBitJsoncPath X workspaceDir \<mapsto> stringify X (data c)),
                persisted := persisted w @
                  [\<lparr> vinyl_base = workspaceDir,
                     vinyl_path = composeBitJsoncPath X workspaceDir,
                     vinyl_contents = stringify X (data c) \<rparr>] \<rparr>))
   \<and> (\<forall>l. \<not> js_truthy (data c) \<and> legacyConfig c = Some l \<longrightarrow>
        write_config X c workspaceDir w
          = Inr (w\<lparr>legacy_writes := legacy_writes w @ [workspaceDir]\<rparr>))
   \<and> (\<forall>w'. write_config X c workspaceDir w = Inr w' \<longrightarrow>
        length (persisted w') \<le> length (persisted w) + 1
        \<and> (\<exists>q. \<forall>q'. q' \<noteq> q \<longrightarrow> files w' q' = files w q')
        \<and> (js_truthy (data c) \<longrightarrow>
              legacy_writes w' = legacy_writes w
              \<and> length (persisted w') = length (persisted w) + 1)
        \<and> (\<not> js_truthy (data c) \<longrightarrow> files w' = files w \<and> persisted w' = persisted w))
   \<and> (\<forall>e. write_config X c workspaceDir w = Inl e \<longrightarrow>
        js_truthy (data c) \<and> workspaceDir = [] \<and> e = InvalidVinylBase)"
proof (cases "js_truthy (data c)")
  case False
  then show ?thesis
    by (auto simp: write_config_legacy split: option.splits)
next
  case True
  show ?thesis
  proof (cases "workspaceDir = []")
    case True
    with \<open>js_truthy (data c)\<close> show ?thesis
      by (simp add: write_config_empty_base)
  next
    case False
    with \<open>js_truthy (data c)\<close> show ?thesis
      by (auto simp: write_config_modern)
  qed
qed

subsection \<open>On the sample file systems\<close>

lemma sample_compose: "composeBitJsoncPath sample_externals ''/w'' = ''/w/bit.jsonc''"
  by (simp add: composeBitJsoncPath_def sample_externals_def)

lemma sample_parse:
  "parse sample_externals ''TEMPLATE'' = Some sample_template"
  "parse sample_externals ''{ not json'' = None"
  "template sample_externals = ''TEMPLATE''"
  "stringify sample_externals sample_template = ''TEMPLATE''"
  "LegacyWorkspaceConfig_loadIfExist sample_externals fs d = Inr None"
  "parse sample_externals ''MERGED'' = Some sample_merged"
  "stringify sample_externals sample_merged = ''MERGED''"
  by (simp_all add: sample_externals_def sample_template_def sample_merged_def)

lemma sample_files:
  "files empty_world p = None"
  "files broken_world ''/w/bit.jsonc'' = Some ''{ not json''"
  "files modern_world ''/w/bit.jsonc'' = Some ''TEMPLATE''"
  by (simp_all add: empty_world_def broken_world_def modern_world_def)

text \<open>
  C4 on the samples: a file that does not parse, no file at all, and a file that parses.
\<close>

theorem loadIfExist_spec_witness:
  "loadIfExist sample_externals broken_world ''/w'' = Inl (InvalidConfigFile ''/w/bit.jsonc'')
   \<and> loadIfExist sample_externals empty_world ''/w'' = Inr None
   \<and> (\<exists>c. loadIfExist sample_externals modern_world ''/w'' = Inr (Some c)
          \<and> data c = sample_template \<and> path c = ''/w/bit.jsonc'')"
  using loadIfExist_spec [where X = sample_externals and w = broken_world and dirPath = "''/w''"]
        loadIfExist_spec [where X = sample_externals and w = empty_world and dirPath = "''/w''"]
        loadIfExist_spec [where X = sample_externals and w = modern_world and dirPath = "''/w''"]
  by (simp add: sample_compose sample_parse sample_files)

lemma sample_assign_props:
  "assign sample_template sample_props = Inr sample_merged"
  by (simp add: sample_template_def sample_props_def sample_merged_def)

lemma sample_ensure_fresh:
  "ensure sample_externals empty_world ''/w'' sample_props
     = Inr (set_path (fromObject sample_externals sample_merged) ''/w/bit.jsonc'')"
proof -
  have "sample_props \<noteq> JUndefined"
    by (simp add: sample_props_def)
  then show ?thesis
    by (simp add: ensure_not_found loadIfExist_legacy sample_compose sample_parse sample_files
          create_def bind_err_def sample_assign_props fromObject_def)
qed

text \<open>
  C3 on the samples: in the empty file system \<^verbatim>\<open>ensure\<close> with the properties
  \<^verbatim>\<open>{ workspace: { defaultScope: "acme" } }\<close> creates a configuration whose data is
  the template with \<^verbatim>\<open>workspace\<close> replaced and the other template fields kept, at
  the path \<^verbatim>\<open>/w/bit.jsonc\<close>; after that configuration is written, \<^verbatim>\<open>ensure\<close>
  with no properties returns the very same configuration, loaded from the file.
\<close>

theorem ensure_spec_witness:
  "loadIfExist sample_externals empty_world ''/w'' = Inr None
   \<and> ensure sample_externals empty_world ''/w'' sample_props
       = Inr (set_path (fromObject sample_externals sample_merged) ''/w/bit.jsonc'')
   \<and> data (set_path (fromObject sample_externals sample_merged) ''/w/bit.jsonc'')
       = JObj [(''$schema'', JStr ''https://static.bit.dev/schema.json''),
               (''workspace'', JObj [(''defaultScope'', JStr ''acme'')]),
               (''components'', JObj [])]
   \<and> path (set_path (fromObject sample_externals sample_merged) ''/w/bit.jsonc'')
       = ''/w/bit.jsonc''
   \<and> (\<exists>w'. write_config sample_externals
                (set_path (fromObject sample_externals sample_merged) ''/w/bit.jsonc'') ''/w''
                empty_world = Inr w'
          \<and> files w' ''/w/bit.jsonc'' = Some ''MERGED''
          \<and> ensure sample_externals w' ''/w'' JUndefined
              = Inr (set_path (fromObject sample_externals sample_merged) ''/w/bit.jsonc''))"
proof -
  have nf: "loadIfExist sample_externals empty_world ''/w'' = Inr None"
    by (simp add: loadIfExist_legacy sample_parse sample_files)
  have dat: "data (set_path (fromObject sample_externals sample_merged) ''/w/bit.jsonc'')
               = sample_merged"
    by (simp add: set_path_fields fromObject_fields)
  have tr: "js_truthy (data (set_path (fromObject sample_externals sample_merged) ''/w/bit.jsonc''))"
    unfolding dat by (simp add: sample_merged_def)
  have tp: "parse sample_externals (template sample_externals)
              = Some (JObj [(''$schema'', JStr ''https://static.bit.dev/schema.json''),
                            (''workspace'', JObj [(''defaultScope'', JStr ''org'')]),
                            (''components'', JObj [])])"
    by (simp add: sample_parse sample_template_def)
  note inst = ensure_spec [where X = sample_externals and dirPath = "''/w''" and w = empty_world]
  from inst [where props = sample_props, THEN conjunct2, THEN conjunct2, THEN conjunct1,
      rule_format, OF conjI, OF nf, OF conjI, OF _ tp]
  have "\<exists>c. ensure sample_externals empty_world ''/w'' sample_props = Inr c
          \<and> data c = sample_merged \<and> path c = ''/w/bit.jsonc''"
    by (auto simp: sample_props_def sample_merged_def sample_compose)
  then have made: "data (set_path (fromObject sample_externals sample_merged) ''/w/bit.jsonc'')
                     = sample_merged
                   \<and> path (set_path (fromObject sample_externals sample_merged) ''/w/bit.jsonc'')
                     = ''/w/bit.jsonc''"
    by (simp add: sample_ensure_fresh)
  from inst [where props = JUndefined, THEN conjunct2, THEN conjunct2, THEN conjunct2,
      rule_format, OF conjI, OF tr]
  have again: "\<exists>w'. write_config sample_externals
                (set_path (fromObject sample_externals sample_merged) ''/w/bit.jsonc'') ''/w''
                empty_world = Inr w'
          \<and> files w' ''/w/bit.jsonc'' = Some ''MERGED''
          \<and> ensure sample_externals w' ''/w'' JUndefined
              = Inr (set_path (fromObject sample_externals sample_merged) ''/w/bit.jsonc'')"
    by (simp add: sample_compose sample_parse dat)
  show ?thesis
    using nf sample_ensure_fresh made again
    by (simp add: sample_merged_def)
qed

text \<open>C8 on the samples: one modern write, one delegated legacy write.\<close>

theorem write_config_spec_witness:
  "write_config sample_externals (fromObject sample_externals sample_template) ''/w'' empty_world
     = Inr \<lparr> files = [''/w/bit.jsonc'' \<mapsto> ''TEMPLATE''],
             persisted = [\<lparr> vinyl_base = ''/w'', vinyl_path = ''/w/bit.jsonc'',
                            vinyl_contents = ''TEMPLATE'' \<rparr>],
             legacy_writes = [] \<rparr>
   \<and> write_config sample_externals (fromLegacyConfig sample_externals (Some sample_legacy))
         ''/w'' empty_world
     = Inr \<lparr> files = Map.empty, persisted = [], legacy_writes = [''/w''] \<rparr>"
proof -
  have m: "js_truthy (data (fromObject sample_externals sample_template)) \<and> ''/w'' \<noteq> []"
    by (simp add: fromObject_fields sample_template_def)
  have l: "\<not> js_truthy (data (fromLegacyConfig sample_externals (Some sample_legacy)))
           \<and> legacyConfig (fromLegacyConfig sample_externals (Some sample_legacy))
               = Some sample_legacy"
    by (simp add: sample_legacy_config)
  from write_config_spec [where X = sample_externals and workspaceDir = "''/w''"
         and w = empty_world and c = "fromObject sample_externals sample_template",
         THEN conjunct1, rule_format, OF m]
       write_config_spec [where X = sample_externals and workspaceDir = "''/w''"
         and w = empty_world and c = "fromLegacyConfig sample_externals (Some sample_legacy)",
         THEN conjunct2, THEN conjunct1, rule_format, OF l]
  show ?thesis
    by (simp add: sample_compose sample_parse fromObject_fields empty_world_def)
qed

section \<open>The two payloads\<close>

lemma new_WorkspaceConfig_settings: "settings_derived X (new_WorkspaceConfig X d l)"
  by (simp add: settings_derived_def new_WorkspaceConfig_def)

lemma settings_derived_set_path: "settings_derived X (set_path c p) = settings_derived X c"
  by (simp add: settings_derived_def set_path_def)

lemma exactly_one_payload_set_path: "exactly_one_payload (set_path c p) = exactly_one_payload c"
  by (simp add: exactly_one_payload_def set_path_def)

lemma create_invariant:
  assumes "create X props dirPath = Inr c"
  shows "exactly_one_payload c \<and> settings_derived X c"
proof -
  from create_result [OF assms] obtain merged where
    "c = new_WorkspaceConfig X (JObj merged) None
     \<or> (\<exists>p. c = set_path (new_WorkspaceConfig X (JObj merged) None) p)"
    by blast
  moreover have "exactly_one_payload (new_WorkspaceConfig X (JObj merged) None)"
    by (simp add: exactly_one_payload_def new_WorkspaceConfig_def)
  ultimately show ?thesis
    by (auto simp: exactly_one_payload_set_path settings_derived_set_path
          new_WorkspaceConfig_settings)
qed

lemma loadIfExist_invariant:
  assumes "loadIfExist X w dirPath = Inr (Some c)"
  shows "settings_derived X c"
    and "(\<forall>content parsed. files w (composeBitJsoncPath X dirPath) = Some content
             \<and> parse X content = Some parsed \<longrightarrow> js_truthy parsed)
         \<Longrightarrow> exactly_one_payload c"
proof -
  show "settings_derived X c"
    using assms
    by (cases "files w (composeBitJsoncPath X dirPath)")
       (auto simp: loadIfExist_legacy loadIfExist_modern fromObject_def fromLegacyConfig_def
          settings_derived_set_path new_WorkspaceConfig_settings
          split: sum.splits option.splits)
  assume "\<forall>content parsed. files w (composeBitJsoncPath X dirPath) = Some content
             \<and> parse X content = Some parsed \<longrightarrow> js_truthy parsed"
  then show "exactly_one_payload c"
    using assms
    by (cases "files w (composeBitJsoncPath X dirPath)")
       (auto simp: loadIfExist_legacy loadIfExist_modern fromObject_def fromLegacyConfig_def
          exactly_one_payload_def set_path_def new_WorkspaceConfig_def
          split: sum.splits option.splits)
qed

lemma ensure_cases:
  "ensure X w dirPath props = Inr c \<Longrightarrow>
     loadIfExist X w dirPath = Inr (Some c)
     \<or> create X (if props = JUndefined then JObj [] else props) (Some dirPath) = Inr c"
  by (auto simp: ensure_def bind_err_Inr Let_def split: option.splits)

text \<open>
  C9, as the claim states it, fails: the public constructor takes both payloads and keeps
  both. \<^verbatim>\<open>new WorkspaceConfig(data, legacyConfig)\<close> on the sample template and the
  sample legacy configuration holds a non-empty modern payload and a legacy payload.
\<close>

theorem new_WorkspaceConfig_both_counterexample:
  "js_truthy (data (new_WorkspaceConfig sample_externals sample_template (Some sample_legacy)))
   \<and> legacyConfig (new_WorkspaceConfig sample_externals sample_template (Some sample_legacy))
       = Some sample_legacy
   \<and> \<not> exactly_one_payload
         (new_WorkspaceConfig sample_externals sample_template (Some sample_legacy))"
  by (simp add: exactly_one_payload_def new_WorkspaceConfig_def sample_template_def)

text \<open>
  C9, amended: the constructor derives the settings from \<^verbatim>\<open>data.workspace\<close> when the
  modern payload is non-empty and from the legacy configuration otherwise, and so does
  every configuration the factories return. Exactly one payload is non-empty in what
  \<^verbatim>\<open>fromObject\<close> builds from a non-empty payload, in what \<^verbatim>\<open>fromLegacyConfig\<close>
  builds from a legacy configuration, in whatever \<^verbatim>\<open>create\<close> returns, and in
  whatever \<^verbatim>\<open>loadIfExist\<close> and \<^verbatim>\<open>ensure\<close> return provided the modern file, when
  there is one, parses to a non-empty payload. The constructor itself does not enforce
  it.
\<close>

theorem factories_invariant:
  "(js_truthy d \<longrightarrow> exactly_one_payload (fromObject X d))
   \<and> exactly_one_payload (fromLegacyConfig X (Some l))
   \<and> (\<forall>c. create X props dirPath = Inr c \<longrightarrow> exactly_one_payload c \<and> settings_derived X c)
   \<and> (\<forall>c. loadIfExist X w dir = Inr (Some c) \<longrightarrow>
          settings_derived X c
          \<and> ((\<forall>content parsed. files w (composeBitJsoncPath X dir) = Some content
                 \<and> parse X content = Some parsed \<longrightarrow> js_truthy parsed)
               \<longrightarrow> exactly_one_payload c))
   \<and> (\<forall>c. ensure X w dir props = Inr c \<longrightarrow>
          settings_derived X c
          \<and> ((\<forall>content parsed. files w (composeBitJsoncPath X dir) = Some content
                 \<and> parse X content = Some parsed \<longrightarrow> js_truthy parsed)
               \<longrightarrow> exactly_one_payload c))
   \<and> settings_derived X (fromObject X d)
   \<and> settings_derived X (fromLegacyConfig X lo)
   \<and> settings_derived X (new_WorkspaceConfig X d lo)"
proof (intro conjI allI impI)
  assume "js_truthy d"
  then show "exactly_one_payload (fromObject X d)"
    by (simp add: exactly_one_payload_def fromObject_fields)
next
  show "exactly_one_payload (fromLegacyConfig X (Some l))"
    by (simp add: exactly_one_payload_def fromLegacyConfig_def new_WorkspaceConfig_def)
next
  fix c :: WorkspaceConfig assume "create X props dirPath = Inr c"
  then show "exactly_one_payload c" "settings_derived X c"
    using create_invariant by blast+
next
  fix c :: WorkspaceConfig assume "loadIfExist X w dir = Inr (Some c)"
  then show "settings_derived X c" by (rule loadIfExist_invariant(1))
next
  fix c :: WorkspaceConfig
  assume "loadIfExist X w dir = Inr (Some c)"
     and "\<forall>content parsed. files w (composeBitJsoncPath X dir) = Some content
                 \<and> parse X content = Some parsed \<longrightarrow> js_truthy parsed"
  then show "exactly_one_payload c" by (rule loadIfExist_invariant(2))
next
  fix c :: WorkspaceConfig assume "ensure X w dir props = Inr c"
  then show "settings_derived X c"
    using ensure_cases loadIfExist_invariant(1) create_invariant by blast
next
  fix c :: WorkspaceConfig
  assume "ensure X w dir props = Inr c"
     and "\<forall>content parsed. files w (composeBitJsoncPath X dir) = Some content
                 \<and> parse X content = Some parsed \<longrightarrow> js_truthy parsed"
  then show "exactly_one_payload c"
    using ensure_cases loadIfExist_invariant(2) create_invariant by blast
next
  show "settings_derived X (fromObject X d)"
    by (simp add: fromObject_def new_WorkspaceConfig_settings)
next
  show "settings_derived X (fromLegacyConfig X lo)"
    by (simp add: fromLegacyConfig_def new_WorkspaceConfig_settings)
next
  show "settings_derived X (new_WorkspaceConfig X d lo)"
    by (rule new_WorkspaceConfig_settings)
qed


text \<open>C9, amended, on the samples.\<close>

theorem factories_invariant_witness:
  "exactly_one_payload (fromObject sample_externals sample_template)
   \<and> exactly_one_payload (fromLegacyConfig sample_externals (Some sample_legacy))
   \<and> (\<exists>c. loadIfExist sample_externals modern_world ''/w'' = Inr (Some c)
          \<and> exactly_one_payload c \<and> settings_derived sample_externals c)"
proof -
  have tr: "js_truthy sample_template"
    by (simp add: sample_template_def)
  have ld: "loadIfExist sample_externals modern_world ''/w''
              = Inr (Some (set_path (fromObject sample_externals sample_template) ''/w/bit.jsonc''))"
    by (simp add: loadIfExist_modern sample_compose sample_parse sample_files)
  have ok: "\<forall>content parsed. files modern_world (composeBitJsoncPath sample_externals ''/w'')
                 = Some content \<and> parse sample_externals content = Some parsed
              \<longrightarrow> js_truthy parsed"
    by (auto simp: sample_compose sample_files sample_parse tr)
  note inst = factories_invariant [where X = sample_externals and d = sample_template
      and l = sample_legacy and w = modern_world and dir = "''/w''"]
  from inst tr have a: "exactly_one_payload (fromObject sample_externals sample_template)"
    by blast
  from inst have b: "exactly_one_payload (fromLegacyConfig sample_externals (Some sample_legacy))"
    by blast
  from inst ld ok
  have c: "exactly_one_payload (set_path (fromObject sample_externals sample_template) ''/w/bit.jsonc'')
           \<and> settings_derived sample_externals
               (set_path (fromObject sample_externals sample_template) ''/w/bit.jsonc'')"
    by blast
  show ?thesis
    using a b c ld by simp
qed

section \<open>The template merge\<close>

lemma create_refs_result:
  assumes "create_refs X props h = Inr (tr, h1, mr, h2)"
  shows "\<exists>t. parse X (template X) = Some (JObj t) \<and> tr = length h \<and> mr = length h
            \<and> h1 = h @ [t]
            \<and> h2 = h @ [case props of JObj ps \<Rightarrow> assign_props t ps | _ \<Rightarrow> t]"
proof -
  from assms obtain t where t: "parse X (template X) = Some (JObj t)"
    by (auto simp: create_refs_def split: option.splits jsval.splits)
  with assms show ?thesis
    by (cases props) (auto simp: create_refs_def heap_alloc_def assign_ref_def)
qed

text \<open>
  C7, as the claim states it, fails: the merge does not produce a structure distinct from
  the parsed template. On the empty store, \<^verbatim>\<open>create\<close> with the properties
  \<^verbatim>\<open>{ workspace: {} }\<close> allocates the parsed template at reference 0, and
  \<^verbatim>\<open>merged\<close> is reference 0 again: the object the template was parsed into has been
  overwritten in place.
\<close>

theorem create_refs_in_place_counterexample:
  "create_refs sample_externals (JObj [(''workspace'', JObj [])]) []
     = Inr (0,
            [[(''$schema'', JStr ''https://static.bit.dev/schema.json''),
              (''workspace'', JObj [(''defaultScope'', JStr ''org'')]),
              (''components'', JObj [])]],
            0,
            [[(''$schema'', JStr ''https://static.bit.dev/schema.json''),
              (''workspace'', JObj []),
              (''components'', JObj [])]])"
  by (simp add: create_refs_def sample_parse sample_template_def heap_alloc_def assign_ref_def)

text \<open>
  C7, amended: in whatever \<^verbatim>\<open>create\<close> returns, the data is the parsed template
  object with the properties merged over it shallowly: a key of the properties has the
  value the properties give it (the last one, should a key repeat), every other key has
  the template's value; properties that are not an object leave the template as it is.
  The merge is done in place on the freshly parsed template object: \<^verbatim>\<open>merged\<close> is
  the reference \<^verbatim>\<open>template\<close>, a reference new to the store, no object that existed
  before is touched, and the object behind it is the data of the new configuration.
\<close>

theorem create_merge:
  "(\<forall>c. create X props dirPath = Inr c \<longrightarrow>
      (\<exists>t. parse X (template X) = Some (JObj t)
         \<and> (\<forall>ps. props = JObj ps \<longrightarrow>
               (\<forall>k. fields (data c) k
                     = (case map_of (rev ps) k of Some v \<Rightarrow> Some v | None \<Rightarrow> map_of t k)))
         \<and> ((\<forall>ps. props \<noteq> JObj ps) \<longrightarrow> data c = JObj t)))
   \<and> (\<forall>tr h1 mr h2. create_refs X props h = Inr (tr, h1, mr, h2) \<longrightarrow>
        mr = tr \<and> tr = length h
        \<and> (\<exists>t. parse X (template X) = Some (JObj t) \<and> h1 = h @ [t])
        \<and> take (length h) h2 = h \<and> length h2 = length h + 1
        \<and> (\<forall>c. create X props dirPath = Inr c \<longrightarrow> data c = JObj (h2 ! mr)))"
proof (intro conjI allI impI)
  fix c :: WorkspaceConfig assume c: "create X props dirPath = Inr c"
  from create_template_object [OF c] obtain t where t: "parse X (template X) = Some (JObj t)"
    by blast
  have "\<forall>k. fields (data c) k = (case map_of (rev ps) k of Some v \<Rightarrow> Some v | None \<Rightarrow> map_of t k)"
    if "props = JObj ps" for ps
    using create_data [OF c t] that
    by (simp add: map_of_assign_props map_add_def)
  moreover have "data c = JObj t" if "\<forall>ps. props \<noteq> JObj ps"
    using create_data [OF c t] that by (cases props) auto
  ultimately show "\<exists>t. parse X (template X) = Some (JObj t)
         \<and> (\<forall>ps. props = JObj ps \<longrightarrow>
               (\<forall>k. fields (data c) k
                     = (case map_of (rev ps) k of Some v \<Rightarrow> Some v | None \<Rightarrow> map_of t k)))
         \<and> ((\<forall>ps. props \<noteq> JObj ps) \<longrightarrow> data c = JObj t)"
    using t by blast
next
  fix tr h1 mr h2
  assume r: "create_refs X props h = Inr (tr, h1, mr, h2)"
  from create_refs_result [OF r] obtain t where
    t: "parse X (template X) = Some (JObj t)" and tr: "tr = length h" and mr: "mr = length h"
    and h1: "h1 = h @ [t]"
    and h2: "h2 = h @ [case props of JObj ps \<Rightarrow> assign_props t ps | _ \<Rightarrow> t]"
    by blast
  show "mr = tr" using tr mr by simp
  show "tr = length h" by (rule tr)
  show "\<exists>t. parse X (template X) = Some (JObj t) \<and> h1 = h @ [t]" using t h1 by blast
  show "take (length h) h2 = h" by (simp add: h2)
  show "length h2 = length h + 1" by (simp add: h2)
  fix c :: WorkspaceConfig assume c: "create X props dirPath = Inr c"
  show "data c = JObj (h2 ! mr)"
    using create_data [OF c t] by (simp add: h2 mr)
qed

text \<open>
  C7, amended, on the sample template: \<^verbatim>\<open>workspace\<close> comes from the properties,
  \<^verbatim>\<open>components\<close> from the template.
\<close>

theorem create_merge_witness:
  "create sample_externals (JObj [(''workspace'', JObj [])]) (Some ''/w'')
     = Inr (set_path (new_WorkspaceConfig sample_externals
              (JObj [(''$schema'', JStr ''https://static.bit.dev/schema.json''),
                     (''workspace'', JObj []),
                     (''components'', JObj [])]) None) ''/w/bit.jsonc'')
   \<and> fields (data (set_path (new_WorkspaceConfig sample_externals
              (JObj [(''$schema'', JStr ''https://static.bit.dev/schema.json''),
                     (''workspace'', JObj []),
                     (''components'', JObj [])]) None) ''/w/bit.jsonc'')) ''workspace''
       = Some (JObj [])
   \<and> fields (data (set_path (new_WorkspaceConfig sample_externals
              (JObj [(''$schema'', JStr ''https://static.bit.dev/schema.json''),
                     (''workspace'', JObj []),
                     (''components'', JObj [])]) None) ''/w/bit.jsonc'')) ''components''
       = map_of [(''$schema'', JStr ''https://static.bit.dev/schema.json''),
                 (''workspace'', JObj [(''defaultScope'', JStr ''org'')]),
                 (''components'', JObj [])] ''components''"
proof -
  have run: "create sample_externals (JObj [(''workspace'', JObj [])]) (Some ''/w'')
     = Inr (set_path (new_WorkspaceConfig sample_externals
              (JObj [(''$schema'', JStr ''https://static.bit.dev/schema.json''),
                     (''workspace'', JObj []),
                     (''components'', JObj [])]) None) ''/w/bit.jsonc'')"
    by (simp add: create_def sample_parse sample_template_def bind_err_def sample_compose)
  from create_merge [where X = sample_externals and props = "JObj [(''workspace'', JObj [])]"
         and dirPath = "Some ''/w''" and h = "[]", THEN conjunct1, rule_format, OF run]
  show ?thesis
    using run by (simp add: sample_parse sample_template_def set_path_fields new_WorkspaceConfig_def)
qed

end
